theory Spec2Isabelle
  imports Complex_Main "HOL-Library.Word" "HOL-Library.Log_Nat"
begin

unbundle bit_operations_syntax

section \<open>Halt And Catch Fire: the shared layer of \<^verbatim>\<open>common.cc\<close> / \<^verbatim>\<open>common.h\<close>\<close>

text \<open>
  The development embeds the functions of \<^verbatim>\<open>src/common.cc\<close> that the properties below
  are about. The Vulkan driver is outside the repository, so it is a parameter: a record
  \<open>driver\<close> of the tables the code queries and of an oracle that answers every call
  from the calls made so far. Calls that return a \<^verbatim>\<open>VkResult\<close> or change driver state
  are logged, with their answer, in the \<open>trace\<close> of the \<open>world\<close>; a call of
  \<^verbatim>\<open>assert\<close> that fails, a call of \<^verbatim>\<open>exit\<close> and undefined behaviour end a run with
  an \<open>error\<close> (assertions are modelled as compiled in, which is also how the
  \<^verbatim>\<open>VK_CHECK_RESULT\<close> macro is meant to abort).
\<close>

subsection \<open>Vulkan types and constants (from the Vulkan headers the source includes)\<close>

type_synonym handle = "64 word"
type_synonym VkResult = int

definition VK_SUCCESS :: VkResult where "VK_SUCCESS = 0"
definition VK_TIMEOUT :: VkResult where "VK_TIMEOUT = 2"
definition VK_ERROR_OUT_OF_HOST_MEMORY :: VkResult where "VK_ERROR_OUT_OF_HOST_MEMORY = - 1"
definition VK_ERROR_DEVICE_LOST :: VkResult where "VK_ERROR_DEVICE_LOST = - 4"

definition VK_NULL_HANDLE :: handle where "VK_NULL_HANDLE = 0"

definition VK_QUEUE_GRAPHICS_BIT :: "32 word" where "VK_QUEUE_GRAPHICS_BIT = 1"
definition VK_QUEUE_COMPUTE_BIT :: "32 word" where "VK_QUEUE_COMPUTE_BIT = 2"
definition VK_QUEUE_TRANSFER_BIT :: "32 word" where "VK_QUEUE_TRANSFER_BIT = 4"

definition VK_MEMORY_PROPERTY_HOST_VISIBLE_BIT :: "32 word" where
  "VK_MEMORY_PROPERTY_HOST_VISIBLE_BIT = 2"
definition VK_MEMORY_PROPERTY_HOST_COHERENT_BIT :: "32 word" where
  "VK_MEMORY_PROPERTY_HOST_COHERENT_BIT = 4"

definition VK_BUFFER_USAGE_TRANSFER_SRC_BIT :: "32 word" where
  "VK_BUFFER_USAGE_TRANSFER_SRC_BIT = 1"
definition VK_BUFFER_USAGE_TRANSFER_DST_BIT :: "32 word" where
  "VK_BUFFER_USAGE_TRANSFER_DST_BIT = 2"
definition VK_BUFFER_USAGE_STORAGE_BUFFER_BIT :: "32 word" where
  "VK_BUFFER_USAGE_STORAGE_BUFFER_BIT = 32"

definition VK_WHOLE_SIZE :: "64 word" where "VK_WHOLE_SIZE = - 1"

definition VK_COMMAND_BUFFER_USAGE_ONE_TIME_SUBMIT_BIT :: "32 word" where
  "VK_COMMAND_BUFFER_USAGE_ONE_TIME_SUBMIT_BIT = 1"

definition VK_SHADER_STAGE_COMPUTE_BIT :: "32 word" where "VK_SHADER_STAGE_COMPUTE_BIT = 32"
definition VK_SHADER_STAGE_ALL :: "32 word" where "VK_SHADER_STAGE_ALL = 2147483647"

definition VK_STRUCTURE_TYPE_SUBMIT_INFO :: "32 word" where "VK_STRUCTURE_TYPE_SUBMIT_INFO = 4"

datatype VkCommandBufferLevel =
  VK_COMMAND_BUFFER_LEVEL_PRIMARY | VK_COMMAND_BUFFER_LEVEL_SECONDARY

datatype VkDescriptorType = VK_DESCRIPTOR_TYPE_STORAGE_BUFFER

datatype VkObjectType =
    VK_OBJECT_TYPE_INSTANCE | VK_OBJECT_TYPE_PHYSICAL_DEVICE | VK_OBJECT_TYPE_DEVICE
  | VK_OBJECT_TYPE_QUEUE | VK_OBJECT_TYPE_COMMAND_BUFFER | VK_OBJECT_TYPE_FENCE
  | VK_OBJECT_TYPE_DEVICE_MEMORY | VK_OBJECT_TYPE_BUFFER | VK_OBJECT_TYPE_PIPELINE_LAYOUT
  | VK_OBJECT_TYPE_PIPELINE | VK_OBJECT_TYPE_COMMAND_POOL

record VkQueueFamilyProperties =
  queueFlags :: "32 word"
  queueCount :: "32 word"

record VkMemoryType =
  propertyFlags :: "32 word"
  heapIndex :: "32 word"

subsection \<open>\<^verbatim>\<open>common.h\<close>: the queue classes\<close>

datatype QueueType = Undefined | Graphics | Compute | Transfer

subsection \<open>\<^verbatim>\<open>SelectQueue\<close> (common.cc, lines 162 to 191)\<close>

text \<open>
  \<open>find_if_distance P xs\<close> is \<^verbatim>\<open>std::distance(begin(xs), std::find_if(begin(xs), end(xs), P))\<close>:
  the position of the first element that satisfies \<open>P\<close>, the length when there is none.
\<close>

fun find_if_distance :: "('a \<Rightarrow> bool) \<Rightarrow> 'a list \<Rightarrow> nat" where
  "find_if_distance P [] = 0"
| "find_if_distance P (x # xs) = (if P x then 0 else Suc (find_if_distance P xs))"

text \<open>The lambda handed to \<^verbatim>\<open>std::find_if\<close>; a C++ integer is true when it is not zero.\<close>

definition queue_predicate :: "QueueType \<Rightarrow> VkQueueFamilyProperties \<Rightarrow> bool" where
  "queue_predicate queue_type q =
     (if Compute = queue_type then
        (queueFlags q AND VK_QUEUE_COMPUTE_BIT) \<noteq> 0 \<and>
        \<not> ((queueFlags q AND VK_QUEUE_GRAPHICS_BIT) \<noteq> 0)
      else if Transfer = queue_type then
        (queueFlags q AND VK_QUEUE_TRANSFER_BIT) \<noteq> 0 \<and>
        \<not> ((queueFlags q AND VK_QUEUE_GRAPHICS_BIT) \<noteq> 0) \<and>
        \<not> ((queueFlags q AND VK_QUEUE_COMPUTE_BIT) \<noteq> 0)
      else
        VK_QUEUE_GRAPHICS_BIT = (queueFlags q AND VK_QUEUE_GRAPHICS_BIT))"

text \<open>
  The first argument is the vector \<^verbatim>\<open>queue_families\<close> that
  \<^verbatim>\<open>vkGetPhysicalDeviceQueueFamilyProperties\<close> fills for the physical device; the result is
  the distance cast to \<^verbatim>\<open>uint32_t\<close>.
\<close>

definition SelectQueue :: "VkQueueFamilyProperties list \<Rightarrow> QueueType \<Rightarrow> 32 word" where
  "SelectQueue queue_families queue_type =
     word_of_nat (find_if_distance (queue_predicate queue_type) queue_families)"

text \<open>
  The rule of each queue class in the words of the specification, on the capability bits
  of a family (bit 0 graphics, bit 1 compute, bit 2 transfer); it is compared with
  \<open>queue_predicate\<close> below.
\<close>

definition class_rule :: "QueueType \<Rightarrow> 32 word \<Rightarrow> bool" where
  "class_rule c f =
     (case c of
        Compute \<Rightarrow> bit f 1 \<and> \<not> bit f 0
      | Transfer \<Rightarrow> bit f 2 \<and> \<not> bit f 0 \<and> \<not> bit f 1
      | _ \<Rightarrow> bit f 0)"

subsection \<open>\<^verbatim>\<open>FindMemoryType\<close> (common.cc, lines 795 to 808)\<close>

text \<open>
  The loop \<^verbatim>\<open>for (uint32_t i = 0; i < memoryTypeCount; ++i)\<close> over the first
  \<^verbatim>\<open>memoryTypeCount\<close> entries of \<^verbatim>\<open>memoryTypes\<close>, given as a list.
  \<^verbatim>\<open>memoryProperties\<close> is an \<^verbatim>\<open>int\<close> in the source; both comparisons convert it to
  \<^verbatim>\<open>uint32_t\<close>, so the model takes its 32-bit pattern. \<^verbatim>\<open>return -1\<close> converts to the
  largest \<^verbatim>\<open>uint32_t\<close>.
\<close>

function FindMemoryType_loop ::
  "VkMemoryType list \<Rightarrow> 32 word \<Rightarrow> 32 word \<Rightarrow> nat \<Rightarrow> 32 word" where
  "FindMemoryType_loop memoryTypes memoryTypeBits memoryProperties i =
     (if i < length memoryTypes then
        (if (memoryTypeBits AND push_bit i 1) \<noteq> 0 \<and>
            (propertyFlags (memoryTypes ! i) AND memoryProperties) = memoryProperties
         then word_of_nat i
         else FindMemoryType_loop memoryTypes memoryTypeBits memoryProperties (Suc i))
      else - 1)"
  by pat_completeness auto
termination
  by (relation "measure (\<lambda>(m, b, p, i). length m - i)") auto

declare FindMemoryType_loop.simps [simp del]

definition FindMemoryType :: "VkMemoryType list \<Rightarrow> 32 word \<Rightarrow> 32 word \<Rightarrow> 32 word" where
  "FindMemoryType memoryTypes memoryTypeBits memoryProperties =
     FindMemoryType_loop memoryTypes memoryTypeBits memoryProperties 0"

text \<open>
  What the specification asks of an index: its bit is set in the type bitmask and the
  property flags of the memory type contain every required flag.
\<close>

definition memory_type_ok :: "VkMemoryType list \<Rightarrow> 32 word \<Rightarrow> 32 word \<Rightarrow> nat \<Rightarrow> bool" where
  "memory_type_ok memoryTypes memoryTypeBits memoryProperties i =
     (bit memoryTypeBits i \<and>
      (\<forall>k. bit memoryProperties k \<longrightarrow> bit (propertyFlags (memoryTypes ! i)) k))"

subsection \<open>\<^verbatim>\<open>common.h\<close>: devices and contexts\<close>

text \<open>
  How a run ends when it does not return: \<^verbatim>\<open>VK_CHECK_RESULT\<close> logs the result and
  asserts, \<^verbatim>\<open>assert\<close> aborts, \<^verbatim>\<open>exit\<close> ends the process with a status, and
  reading an unset member, calling through a null pointer or taking the front of an empty
  vector is undefined.
\<close>

datatype error =
    CheckFailed VkResult
  | AssertionFailed string
  | ProcessExit int
  | UndefinedBehaviour string

text \<open>
  \<^verbatim>\<open>SetDebugUtilsObjectNameEXT\<close> of a device is either the function of this file that
  returns \<^verbatim>\<open>VK_SUCCESS\<close> and does nothing, or the address that
  \<^verbatim>\<open>vkGetDeviceProcAddr\<close> gave for \<^verbatim>\<open>vkSetDebugUtilsObjectNameEXT\<close>.
\<close>

datatype debug_name_function =
    DummySetDebugUtilsObjectNameEXT
  | DriverSetDebugUtilsObjectNameEXT handle

text \<open>
  \<^verbatim>\<open>struct VulkanDevice\<close>. A member that \<^verbatim>\<open>VulkanDevice device;\<close> leaves unset is
  \<open>None\<close> until the code assigns it. The four sizes have default member initialisers
  (2, 256, \<^verbatim>\<open>sizeof(float) * numBufferEntries\<close>, \<^verbatim>\<open>2 * bufferSize\<close>); they are
  \<^verbatim>\<open>int\<close>s. The member \<^verbatim>\<open>deviceExtensions\<close>, which \<^verbatim>\<open>common.cc\<close> never touches, is
  left out.
\<close>

record VulkanDevice =
  device :: handle
  physicalDevice :: handle
  queues :: "handle list"
  queue :: "handle option"
  CmdWriteBufferMarkerAMD :: handle
  SignalSemaphoreKHR :: handle
  WaitSemaphoresKHR :: handle
  SetDebugUtilsObjectNameEXT :: debug_name_function
  commandPools :: "handle list"
  commandPool :: "handle option"
  computeShaderModule :: "handle option"
  descriptorSetLayout :: "handle option"
  pipelineLayout :: "handle option"
  pipeline :: "handle option"
  descriptorPool :: "handle option"
  descriptorSet :: "handle option"
  bufferIn :: "handle option"
  bufferOut :: "handle option"
  bufferMemory :: "handle option"
  numBuffers :: int
  numBufferEntries :: int
  bufferSize :: int
  memorySize :: int

text \<open>
  \<^verbatim>\<open>struct VulkanContext\<close>; \<open>vk_instance\<close> is the member \<^verbatim>\<open>instance\<close> and
  \<open>context_physicalDevice\<close> the member \<^verbatim>\<open>physicalDevice\<close>. The mutex
  \<^verbatim>\<open>devices_lock\<close> has no counterpart: every function here runs to its end on its own.
\<close>

record VulkanContext =
  vk_instance :: handle
  context_physicalDevice :: handle
  devices :: "VulkanDevice list"
  apiVersion :: "32 word"
  instanceExtensions :: "string list"
  instanceLayers :: "string list"
  test_termination_timer_ms :: "64 word"

definition kTestTerminationTimerMsDefault :: "64 word" where
  "kTestTerminationTimerMsDefault = 120000"

subsection \<open>The watchdog (common.cc, lines 60 to 99 and 425 to 433)\<close>

text \<open>
  The file-scope variables \<^verbatim>\<open>watchdog_thread\<close> and \<^verbatim>\<open>test_timedout\<close> and what the
  process keeps beside them: how many \<^verbatim>\<open>std::thread\<close> objects were constructed, the
  handlers registered with \<^verbatim>\<open>std::atexit\<close> (latest first, the order in which
  \<^verbatim>\<open>exit\<close> runs them), whether \<^verbatim>\<open>test_is_finished.notify_all()\<close> was called, and the
  status of a call of \<^verbatim>\<open>exit\<close>. The pointer \<^verbatim>\<open>watchdog_thread\<close> is \<open>None\<close> when null
  (static storage starts zeroed) and otherwise holds the thread it points to: the argument
  \<^verbatim>\<open>WatchdogTimer\<close> was started with, and where that thread stands.
\<close>

datatype cv_status = no_timeout | timeout

datatype thread_state = Waiting | Returned | Exiting

record watchdog =
  timer_ms :: "64 word"
  thread_state :: thread_state

datatype exit_handler = WaitForWatchdogThread_handler

record process =
  watchdog_thread :: "watchdog option"
  test_timedout :: bool
  threads_created :: nat
  atexit_handlers :: "exit_handler list"
  finish_notified :: bool
  exit_called :: "int option"

definition initial_process :: process where
  "initial_process =
     \<lparr>watchdog_thread = None, test_timedout = False, threads_created = 0,
      atexit_handlers = [], finish_notified = False, exit_called = None\<rparr>"

text \<open>
  \<^verbatim>\<open>WaitForWatchdogThread\<close>: nothing when the flag is set; otherwise it notifies the
  condition variable and joins the thread. The join only blocks the caller until the
  watchdog thread has returned, so it changes none of the fields.
\<close>

definition WaitForWatchdogThread :: "process \<Rightarrow> process" where
  "WaitForWatchdogThread p =
     (if test_timedout p then p else p\<lparr>finish_notified := True\<rparr>)"

fun run_exit_handler :: "exit_handler \<Rightarrow> process \<Rightarrow> process" where
  "run_exit_handler WaitForWatchdogThread_handler p = WaitForWatchdogThread p"

text \<open>\<^verbatim>\<open>exit(status)\<close>: the registered handlers run, then the process ends.\<close>

definition exit_process :: "int \<Rightarrow> process \<Rightarrow> process" where
  "exit_process status p = (fold run_exit_handler (atexit_handlers p) p)\<lparr>exit_called := Some status\<rparr>"

definition set_thread_state :: "thread_state \<Rightarrow> process \<Rightarrow> process" where
  "set_thread_state s p =
     p\<lparr>watchdog_thread := map_option (\<lambda>t. t\<lparr>thread_state := s\<rparr>) (watchdog_thread p)\<rparr>"

text \<open>
  \<^verbatim>\<open>WatchdogTimer\<close>, from the point where \<^verbatim>\<open>test_is_finished.wait_for\<close> has returned
  \<open>status\<close> to the thread that runs it: on \<^verbatim>\<open>std::cv_status::timeout\<close> it sets the
  flag and calls \<^verbatim>\<open>exit(0)\<close>, otherwise it returns.
\<close>

definition WatchdogTimer :: "cv_status \<Rightarrow> process \<Rightarrow> process" where
  "WatchdogTimer status p =
     (if status = timeout
      then exit_process 0 (set_thread_state Exiting (p\<lparr>test_timedout := True\<rparr>))
      else set_thread_state Returned p)"

text \<open>
  \<^verbatim>\<open>SetupWatchdogTimer\<close>: when the pointer is null, a new thread runs
  \<^verbatim>\<open>WatchdogTimer(context->test_termination_timer_ms)\<close> and the exit handler is registered.
\<close>

definition SetupWatchdogTimer :: "VulkanContext \<Rightarrow> process \<Rightarrow> process" where
  "SetupWatchdogTimer context p =
     (if watchdog_thread p = None
      then p\<lparr>watchdog_thread :=
                Some \<lparr>timer_ms = test_termination_timer_ms context, thread_state = Waiting\<rparr>,
              threads_created := Suc (threads_created p),
              atexit_handlers := WaitForWatchdogThread_handler # atexit_handlers p\<rparr>
      else p)"

text \<open>
  What can happen to the process, one function of the source at a time: the main thread
  calls \<^verbatim>\<open>SetupWatchdogTimer\<close> on some context; the wait of a waiting watchdog thread
  returns, with either status; \<^verbatim>\<open>WaitForWatchdogThread\<close> runs.
\<close>

inductive process_step :: "process \<Rightarrow> process \<Rightarrow> bool" where
  step_setup: "process_step p (SetupWatchdogTimer context p)"
| step_wake: "watchdog_thread p = Some t \<Longrightarrow> thread_state t = Waiting \<Longrightarrow>
         process_step p (WatchdogTimer status p)"
| step_finish: "process_step p (WaitForWatchdogThread p)"

text \<open>The four states of the specification, read off the process.\<close>

datatype watchdog_state = NotStarted | Running | NotifiedFinished | TimedOut

definition watchdog_state_of :: "process \<Rightarrow> watchdog_state" where
  "watchdog_state_of p =
     (case watchdog_thread p of
        None \<Rightarrow> NotStarted
      | Some t \<Rightarrow>
          (case thread_state t of
             Waiting \<Rightarrow> Running
           | Returned \<Rightarrow> NotifiedFinished
           | Exiting \<Rightarrow> TimedOut))"

text \<open>
  What holds of the flag in every state the process can reach: it is set exactly when the
  watchdog timed out, and then \<^verbatim>\<open>exit(0)\<close> was called.
\<close>

definition flag_invariant :: "process \<Rightarrow> bool" where
  "flag_invariant p =
     ((test_timedout p = (watchdog_state_of p = TimedOut)) \<and>
      (watchdog_state_of p = TimedOut \<longrightarrow> exit_called p = Some 0))"

subsection \<open>\<^verbatim>\<open>CreateSubmitInfo\<close> (common.cc, lines 609 to 632)\<close>

text \<open>
  A \<^verbatim>\<open>std::vector\<close>: the address of its storage, which \<^verbatim>\<open>data()\<close> returns, and its
  elements. A pointer to a vector that may be null is an \<open>option\<close>. Pointer members of
  a Vulkan structure are addresses; \<^verbatim>\<open>= {}\<close> sets every member to zero.
\<close>

record 'a std_vector =
  data :: handle
  elems :: "'a list"

record VkSubmitInfo =
  sType :: "32 word"
  pNext :: handle
  waitSemaphoreCount :: "32 word"
  pWaitSemaphores :: handle
  pWaitDstStageMask :: handle
  commandBufferCount :: "32 word"
  pCommandBuffers :: handle
  signalSemaphoreCount :: "32 word"
  pSignalSemaphores :: handle

definition zero_VkSubmitInfo :: VkSubmitInfo where
  "zero_VkSubmitInfo =
     \<lparr>sType = 0, pNext = 0, waitSemaphoreCount = 0, pWaitSemaphores = 0,
      pWaitDstStageMask = 0, commandBufferCount = 0, pCommandBuffers = 0,
      signalSemaphoreCount = 0, pSignalSemaphores = 0\<rparr>"

definition CreateSubmitInfo ::
  "handle \<Rightarrow> handle std_vector option \<Rightarrow> (32 word) std_vector option \<Rightarrow>
   handle std_vector option \<Rightarrow> handle \<Rightarrow> error + VkSubmitInfo" where
  "CreateSubmitInfo command_buffer wait_semaphores wait_dst_stage_masks signal_semaphores pnext =
     (let submit_info = zero_VkSubmitInfo
            \<lparr>sType := VK_STRUCTURE_TYPE_SUBMIT_INFO,
             commandBufferCount := 1,
             pCommandBuffers := command_buffer\<rparr>
      in case
           (case wait_semaphores of
              None \<Rightarrow> Inr submit_info
            | Some ws \<Rightarrow>
                (case wait_dst_stage_masks of
                   None \<Rightarrow> Inl (UndefinedBehaviour ''wait_dst_stage_masks is null'')
                 | Some ms \<Rightarrow>
                     if length (elems ws) \<noteq> length (elems ms)
                     then Inl (AssertionFailed
                            ''wait_semaphores->size() == wait_dst_stage_masks->size()'')
                     else Inr (submit_info
                            \<lparr>waitSemaphoreCount := word_of_nat (length (elems ws)),
                             pWaitSemaphores := data ws,
                             pWaitDstStageMask := data ms\<rparr>)))
         of
           Inl e \<Rightarrow> Inl e
         | Inr submit_info \<Rightarrow>
             Inr ((case signal_semaphores of
                     None \<Rightarrow> submit_info
                   | Some ss \<Rightarrow> submit_info
                       \<lparr>signalSemaphoreCount := word_of_nat (length (elems ss)),
                        pSignalSemaphores := data ss\<rparr>)
                  \<lparr>pNext := pnext\<rparr>))"


subsection \<open>The driver and the world\<close>

record VkDeviceQueueCreateInfo =
  queueFamilyIndex :: "32 word"
  createQueueCount :: "32 word"

record VkDescriptorSetLayoutBinding =
  binding :: "32 word"
  descriptorType :: VkDescriptorType
  descriptorCount :: "32 word"
  stageFlags :: "32 word"

text \<open>
  The calls that are logged, each with the arguments that the code sets. A create info is
  given by the members the code fills in; \<^verbatim>\<open>vkEnumeratePhysicalDevices\<close> carries the
  capacity of the array it is to fill (\<open>None\<close> for the call that only asks for the
  count); \<^verbatim>\<open>vkCreateDevice\<close> carries the queue create infos, the extension names and
  whether the timeline-semaphore feature structure is chained; \<^verbatim>\<open>vkCreateShaderModule\<close>
  the code bytes and \<^verbatim>\<open>codeSize\<close>; \<^verbatim>\<open>vkCreateComputePipelines\<close> the stage, the module,
  the entry point and the layout; \<^verbatim>\<open>vkQueueSubmit\<close> the submit info, the command buffers
  that its \<^verbatim>\<open>pCommandBuffers\<close> points at, and the fence.
\<close>

datatype vk_call =
    vkEnumeratePhysicalDevices handle "nat option"
  | vkCreateDevice handle "VkDeviceQueueCreateInfo list" "string list" bool
  | vkSetDebugUtilsObjectNameEXT handle VkObjectType handle string
  | vkCreateCommandPool handle "32 word"
  | vkCreateShaderModule handle "8 word list" int
  | vkCreateDescriptorPool handle "(VkDescriptorType \<times> 32 word) list" "32 word"
  | vkCreateDescriptorSetLayout handle "VkDescriptorSetLayoutBinding list"
  | vkCreatePipelineLayout handle "handle list"
  | vkCreateComputePipelines handle "32 word" handle string handle
  | vkCreateBuffer handle "64 word" "32 word"
  | vkAllocateMemory handle "64 word" "32 word"
  | vkBindBufferMemory handle handle handle "64 word"
  | vkMapMemory handle handle "64 word" "64 word"
  | vkUnmapMemory handle handle
  | vkAllocateCommandBuffers handle handle VkCommandBufferLevel "32 word"
  | vkBeginCommandBuffer handle "32 word"
  | vkEndCommandBuffer handle
  | vkCreateFence handle
  | vkQueueWaitIdle handle
  | vkQueueSubmit handle VkSubmitInfo "handle list" handle
  | vkWaitForFences handle "handle list" bool "64 word"

type_synonym event = "vk_call \<times> VkResult \<times> handle"

text \<open>
  The driver: \<open>respond\<close> gives, from the events so far, the result of a call and the
  handle that it writes to its output parameter; the other members are the tables behind
  the queries \<^verbatim>\<open>vkEnumeratePhysicalDevices\<close>,
  \<^verbatim>\<open>vkGetPhysicalDeviceQueueFamilyProperties\<close>, \<^verbatim>\<open>vkGetPhysicalDeviceMemoryProperties\<close>
  (the first \<^verbatim>\<open>memoryTypeCount\<close> memory types), \<^verbatim>\<open>vkGetBufferMemoryRequirements\<close>
  (\<^verbatim>\<open>memoryTypeBits\<close>), \<^verbatim>\<open>vkGetDeviceProcAddr\<close> and \<^verbatim>\<open>vkGetDeviceQueue\<close>.
\<close>

record driver =
  respond :: "event list \<Rightarrow> vk_call \<Rightarrow> VkResult \<times> handle"
  physical_devices :: "handle \<Rightarrow> handle list"
  queue_family_properties :: "handle \<Rightarrow> VkQueueFamilyProperties list"
  memory_types :: "handle \<Rightarrow> VkMemoryType list"
  buffer_memory_type_bits :: "handle \<Rightarrow> handle \<Rightarrow> 32 word"
  device_proc_addr :: "handle \<Rightarrow> string \<Rightarrow> handle"
  device_queue :: "handle \<Rightarrow> 32 word \<Rightarrow> 32 word \<Rightarrow> handle"

text \<open>
  Host-visible memory is an array of 4-byte cells for each \<^verbatim>\<open>VkDeviceMemory\<close> handle; a
  cell holds what was last stored through a \<^verbatim>\<open>float*\<close> or a \<^verbatim>\<open>uint32_t*\<close>. The contents
  of memory that was never written are whatever the world holds there.
\<close>

datatype cell = Float32 real | UInt32 "32 word"

record world =
  trace :: "event list"
  memory :: "handle \<Rightarrow> nat \<Rightarrow> cell"

definition vk :: "driver \<Rightarrow> vk_call \<Rightarrow> world \<Rightarrow> (VkResult \<times> handle) \<times> world" where
  "vk drv c w =
     (respond drv (trace w) c, w\<lparr>trace := trace w @ [(c, respond drv (trace w) c)]\<rparr>)"

text \<open>The calls made between two worlds.\<close>

definition calls_since :: "world \<Rightarrow> world \<Rightarrow> vk_call list" where
  "calls_since w w' = map fst (drop (length (trace w)) (trace w'))"

text \<open>
  \<^verbatim>\<open>VK_CHECK_RESULT(f)\<close> followed by the rest \<open>k\<close> of the function, which gets the
  handle that the call wrote; sequencing of steps that can end the run; and the read of a
  member that may be unset.
\<close>

definition VK_CHECK_RESULT ::
  "(VkResult \<times> handle) \<times> world \<Rightarrow> (handle \<Rightarrow> world \<Rightarrow> error + 'a) \<Rightarrow> error + 'a" where
  "VK_CHECK_RESULT f k =
     (case f of ((res, h), w) \<Rightarrow> if res \<noteq> VK_SUCCESS then Inl (CheckFailed res) else k h w)"

definition and_then :: "error + 'a \<Rightarrow> ('a \<Rightarrow> error + 'b) \<Rightarrow> error + 'b" where
  "and_then m k = (case m of Inl e \<Rightarrow> Inl e | Inr a \<Rightarrow> k a)"

definition read_member :: "'a option \<Rightarrow> ('a \<Rightarrow> error + 'b) \<Rightarrow> error + 'b" where
  "read_member m k =
     (case m of None \<Rightarrow> Inl (UndefinedBehaviour ''read of an unset member'') | Some v \<Rightarrow> k v)"

subsection \<open>\<^verbatim>\<open>SetObjectDebugName\<close> (common.cc, lines 1004 to 1015)\<close>

text \<open>
  Nothing for a null name; otherwise the call goes through the function pointer of the
  device, and its \<^verbatim>\<open>VkResult\<close> is dropped.
\<close>

definition SetObjectDebugName ::
  "driver \<Rightarrow> VulkanDevice \<Rightarrow> handle \<Rightarrow> VkObjectType \<Rightarrow> string option \<Rightarrow> world \<Rightarrow> error + world"
  where
  "SetObjectDebugName drv dev h object_type name w =
     (case name of
        None \<Rightarrow> Inr w
      | Some n \<Rightarrow>
          (case SetDebugUtilsObjectNameEXT dev of
             DummySetDebugUtilsObjectNameEXT \<Rightarrow> Inr w
           | DriverSetDebugUtilsObjectNameEXT fp \<Rightarrow>
               if fp = 0 then Inl (UndefinedBehaviour ''call through a null function pointer'')
               else Inr (snd (vk drv (vkSetDebugUtilsObjectNameEXT (device dev) object_type h n) w))))"

subsection \<open>\<^verbatim>\<open>AllocateInputOutputBuffers\<close> (common.cc, lines 450 to 534)\<close>

datatype BufferInitialization = BI_None | BI_Default | BI_MinusOne | BI_64K | BI_Transfer

text \<open>
  The value of a natural number after conversion to \<^verbatim>\<open>float\<close> (24 bits of precision,
  round to nearest, ties to even); the numbers here stay far below the range of the type.
  The initialiser \<^verbatim>\<open>2 + i * 2.0f\<close> converts \<open>i\<close>, doubles it (exact) and rounds the sum.
\<close>

definition float_round :: "nat \<Rightarrow> nat" where
  "float_round n =
     (if n < 2 ^ 24 then n
      else let e = floorlog 2 n - 24; q = n div 2 ^ e; r = n mod 2 ^ e
           in if 2 * r < 2 ^ e \<or> (2 * r = 2 ^ e \<and> even q) then q * 2 ^ e else (q + 1) * 2 ^ e)"

definition default_value :: "int \<Rightarrow> cell" where
  "default_value i = Float32 (real (float_round (2 + 2 * float_round (nat i))))"

text \<open>
  The four loops \<^verbatim>\<open>for (int i = 0; i < n; ++i) { *pBufferData++ = v; }\<close>: \<open>p\<close> is the
  cell that \<^verbatim>\<open>pBufferData\<close> points at, \<open>v i\<close> the value stored in round \<open>i\<close>.
\<close>

function store_loop ::
  "(int \<Rightarrow> cell) \<Rightarrow> int \<Rightarrow> int \<Rightarrow> nat \<Rightarrow> (nat \<Rightarrow> cell) \<Rightarrow> nat \<Rightarrow> cell" where
  "store_loop v i n p m = (if i < n then store_loop v (i + 1) n (Suc p) (m(p := v i)) else m)"
  by pat_completeness auto
termination
  by (relation "measure (\<lambda>(v, i, n, p, m). nat (n - i))") auto

declare store_loop.simps [simp del]

definition AllocateInputOutputBuffers ::
  "driver \<Rightarrow> VulkanDevice \<Rightarrow> BufferInitialization \<Rightarrow> world \<Rightarrow> error + VulkanDevice \<times> world" where
  "AllocateInputOutputBuffers drv dev0 initialization w0 =
     (let vk_device = device dev0;
          size = (word_of_int (bufferSize dev0) :: 64 word);
          usage_in = (if initialization = BI_Transfer
                      then VK_BUFFER_USAGE_STORAGE_BUFFER_BIT OR VK_BUFFER_USAGE_TRANSFER_SRC_BIT
                      else VK_BUFFER_USAGE_STORAGE_BUFFER_BIT);
          usage_out = (if initialization = BI_Transfer
                       then VK_BUFFER_USAGE_STORAGE_BUFFER_BIT OR VK_BUFFER_USAGE_TRANSFER_DST_BIT
                       else usage_in)
      in
      VK_CHECK_RESULT (vk drv (vkCreateBuffer vk_device size usage_in) w0) (\<lambda>buffer_in w1.
      and_then (SetObjectDebugName drv dev0 buffer_in VK_OBJECT_TYPE_BUFFER
                  (Some ''Input Buffer'') w1) (\<lambda>w2.
      VK_CHECK_RESULT (vk drv (vkCreateBuffer vk_device size usage_out) w2) (\<lambda>buffer_out w3.
      and_then (SetObjectDebugName drv dev0 buffer_out VK_OBJECT_TYPE_BUFFER
                  (Some ''Output Buffer'') w3) (\<lambda>w4.
      let memoryTypeBits = buffer_memory_type_bits drv vk_device buffer_in;
          bufferMemoryType =
            VK_MEMORY_PROPERTY_HOST_VISIBLE_BIT OR VK_MEMORY_PROPERTY_HOST_COHERENT_BIT;
          memoryTypeIndex =
            FindMemoryType (memory_types drv (physicalDevice dev0)) memoryTypeBits bufferMemoryType
      in
      VK_CHECK_RESULT (vk drv (vkAllocateMemory vk_device (word_of_int (memorySize dev0))
                                 memoryTypeIndex) w4) (\<lambda>buffer_memory w5.
      and_then (SetObjectDebugName drv dev0 buffer_memory VK_OBJECT_TYPE_DEVICE_MEMORY
                  (Some ''DeviceMemory for I/O'') w5) (\<lambda>w6.
      VK_CHECK_RESULT (vk drv (vkBindBufferMemory vk_device buffer_in buffer_memory 0) w6)
        (\<lambda>_ w7.
      VK_CHECK_RESULT (vk drv (vkBindBufferMemory vk_device buffer_out buffer_memory size) w7)
        (\<lambda>_ w8.
      let dev = dev0\<lparr>bufferIn := Some buffer_in, bufferOut := Some buffer_out,
                      bufferMemory := Some buffer_memory\<rparr>
      in
      if initialization \<noteq> BI_None then
        VK_CHECK_RESULT (vk drv (vkMapMemory vk_device buffer_memory 0 VK_WHOLE_SIZE) w8)
          (\<lambda>_ w9.
        let n = numBufferEntries dev0;
            m0 = memory w9 buffer_memory;
            m1 = (if initialization = BI_Default then store_loop default_value 0 n 0 m0
                  else if initialization = BI_MinusOne
                    then store_loop (\<lambda>i. Float32 (- 1)) 0 n 0 m0
                  else if initialization = BI_64K
                    then store_loop (\<lambda>i. UInt32 65535) 0 n 0 m0
                  else m0);
            m2 = store_loop (\<lambda>i. Float32 0) 0 n (nat n) m1;
            w10 = w9\<lparr>memory := (memory w9)(buffer_memory := m2)\<rparr>
        in Inr (dev, snd (vk drv (vkUnmapMemory vk_device buffer_memory) w10)))
      else Inr (dev, w8))))))))))"

subsection \<open>\<^verbatim>\<open>RunWithCrashCheck\<close> (common.cc, lines 881 to 937)\<close>

text \<open>
  \<^verbatim>\<open>VulkanContext::GetSingleDevice\<close> asserts that there is exactly one device and
  returns a pointer to it. \<^verbatim>\<open>RunWithCrashCheck\<close> keeps that pointer across the call of
  the payload, which gets the context by reference and may change it; what the pointer
  shows afterwards is the first device of the context as the payload left it.
\<close>

definition GetSingleDevice :: "VulkanContext \<Rightarrow> error + VulkanDevice" where
  "GetSingleDevice ctx =
     (if length (devices ctx) \<noteq> 1 then Inl (AssertionFailed ''devices.size() == 1'')
      else Inr (devices ctx ! 0))"

definition device_pointer_after :: "VulkanContext \<Rightarrow> error + VulkanDevice" where
  "device_pointer_after ctx =
     (case devices ctx of
        [] \<Rightarrow> Inl (UndefinedBehaviour ''the device pointer dangles'')
      | d # ds \<Rightarrow> Inr d)"

text \<open>
  \<^verbatim>\<open>VK_RETURN_IF_FAIL(f)\<close> followed by the rest \<open>k\<close> of the function: a result other
  than \<^verbatim>\<open>VK_SUCCESS\<close> is returned at once, with the context as it is at that point.
\<close>

definition VK_RETURN_IF_FAIL ::
  "(VkResult \<times> handle) \<times> world \<Rightarrow> VulkanContext \<Rightarrow>
   (handle \<Rightarrow> world \<Rightarrow> error + VkResult \<times> VulkanContext \<times> world) \<Rightarrow>
   error + VkResult \<times> VulkanContext \<times> world" where
  "VK_RETURN_IF_FAIL f ctx k =
     (case f of ((res, h), w) \<Rightarrow> if res \<noteq> VK_SUCCESS then Inr (res, ctx, w) else k h w)"

text \<open>\<^verbatim>\<open>constexpr std::chrono::nanoseconds kFenceTimeout = 30s\<close>, as its count.\<close>

definition kFenceTimeout :: "64 word" where
  "kFenceTimeout = 30 * 1000000000"

text \<open>
  The payload \<^verbatim>\<open>f\<close> is any function of the context and the world that either ends the
  run (the scenarios call \<^verbatim>\<open>exit\<close> or assert inside it) or returns, leaving a context
  and a world. \<open>cb_address\<close> is the address of the local variable \<^verbatim>\<open>cb\<close>, which
  \<^verbatim>\<open>CreateSubmitInfo(&cb)\<close> stores in the submit info.
\<close>

definition RunWithCrashCheck ::
  "driver \<Rightarrow> handle \<Rightarrow> VulkanContext \<Rightarrow>
   (VulkanContext \<Rightarrow> world \<Rightarrow> error + VulkanContext \<times> world) \<Rightarrow> world \<Rightarrow>
   error + VkResult \<times> VulkanContext \<times> world" where
  "RunWithCrashCheck drv cb_address ctx f w0 =
     and_then (GetSingleDevice ctx) (\<lambda>dev.
     read_member (commandPool dev) (\<lambda>pool.
     VK_RETURN_IF_FAIL
       (vk drv (vkAllocateCommandBuffers (device dev) pool VK_COMMAND_BUFFER_LEVEL_PRIMARY 1) w0)
       ctx (\<lambda>cb w1.
     and_then (SetObjectDebugName drv dev cb VK_OBJECT_TYPE_COMMAND_BUFFER
                 (Some ''Hang/crash detection CommandBuffer'') w1) (\<lambda>w2.
     VK_RETURN_IF_FAIL
       (vk drv (vkBeginCommandBuffer cb VK_COMMAND_BUFFER_USAGE_ONE_TIME_SUBMIT_BIT) w2)
       ctx (\<lambda>_ w3.
     VK_RETURN_IF_FAIL (vk drv (vkEndCommandBuffer cb) w3) ctx (\<lambda>_ w4.
     VK_RETURN_IF_FAIL (vk drv (vkCreateFence (device dev)) w4) ctx (\<lambda>fence w5.
     and_then (SetObjectDebugName drv dev fence VK_OBJECT_TYPE_FENCE
                 (Some ''Hang/crash detection Fence'') w5) (\<lambda>w6.
     and_then (f ctx w6) (\<lambda>(ctx', w7).
     and_then (device_pointer_after ctx') (\<lambda>dev'.
     read_member (queue dev') (\<lambda>q.
     VK_RETURN_IF_FAIL (vk drv (vkQueueWaitIdle q) w7) ctx' (\<lambda>_ w8.
     and_then (CreateSubmitInfo cb_address None None None 0) (\<lambda>submit_info.
     VK_RETURN_IF_FAIL (vk drv (vkQueueSubmit q submit_info [cb] fence) w8) ctx' (\<lambda>_ w9.
     VK_RETURN_IF_FAIL
       (vk drv (vkWaitForFences (device dev') [fence] True kFenceTimeout) w9) ctx' (\<lambda>_ w10.
     case vk drv (vkQueueWaitIdle q) w10 of
       ((res, _), w11) \<Rightarrow> Inr (res, ctx', w11))))))))))))))))"

text \<open>
  The crash-check protocol in the words of the specification, as the ways in which a run
  can return, each with the events it adds to the trace. \<open>answered drv tr evs\<close>: the
  events \<open>evs\<close>, made in this order after the events \<open>tr\<close>, carry the answers that
  the driver gives to their calls. \<open>debug_name_calls\<close>: the calls that naming an object
  makes, one through the driver's function and none through the dummy; their results
  appear in no rule below, since nothing reads them.
\<close>

fun answered :: "driver \<Rightarrow> event list \<Rightarrow> event list \<Rightarrow> bool" where
  "answered drv tr [] = True"
| "answered drv tr ((c, r) # evs) = (respond drv tr c = r \<and> answered drv (tr @ [(c, r)]) evs)"

definition debug_name_calls ::
  "VulkanDevice \<Rightarrow> handle \<Rightarrow> VkObjectType \<Rightarrow> string \<Rightarrow> vk_call list" where
  "debug_name_calls dev h object_type n =
     (case SetDebugUtilsObjectNameEXT dev of
        DummySetDebugUtilsObjectNameEXT \<Rightarrow> []
      | DriverSetDebugUtilsObjectNameEXT fp \<Rightarrow>
          [vkSetDebugUtilsObjectNameEXT (device dev) object_type h n])"

text \<open>
  \<open>sentinel_allocated\<close>: the context has one device with a command pool, and the
  events \<open>evs\<close> are the successful allocation of the primary command buffer \<open>cb\<close>
  from that pool, followed by its naming. \<open>sentinel_armed\<close>: after that, the command
  buffer was begun and ended with nothing in between and the fence was created and named,
  every checked call with success, leaving the world \<open>wa\<close>.
\<close>

definition sentinel_allocated ::
  "driver \<Rightarrow> VulkanContext \<Rightarrow> world \<Rightarrow> VulkanDevice \<Rightarrow> handle \<Rightarrow> event list \<Rightarrow> bool" where
  "sentinel_allocated drv ctx w dev cb evs =
     (\<exists>pool names.
        devices ctx = [dev] \<and> commandPool dev = Some pool \<and>
        SetDebugUtilsObjectNameEXT dev \<noteq> DriverSetDebugUtilsObjectNameEXT 0 \<and>
        map fst names = debug_name_calls dev cb VK_OBJECT_TYPE_COMMAND_BUFFER
                          ''Hang/crash detection CommandBuffer'' \<and>
        evs = (vkAllocateCommandBuffers (device dev) pool VK_COMMAND_BUFFER_LEVEL_PRIMARY 1,
                 VK_SUCCESS, cb) # names \<and>
        answered drv (trace w) evs)"

definition sentinel_armed ::
  "driver \<Rightarrow> VulkanContext \<Rightarrow> world \<Rightarrow> handle \<Rightarrow> handle \<Rightarrow> world \<Rightarrow> bool" where
  "sentinel_armed drv ctx w cb fence wa =
     (\<exists>dev evs hb he names.
        sentinel_allocated drv ctx w dev cb evs \<and>
        map fst names = debug_name_calls dev fence VK_OBJECT_TYPE_FENCE
                          ''Hang/crash detection Fence'' \<and>
        answered drv (trace w @ evs)
          ([(vkBeginCommandBuffer cb VK_COMMAND_BUFFER_USAGE_ONE_TIME_SUBMIT_BIT, VK_SUCCESS, hb),
            (vkEndCommandBuffer cb, VK_SUCCESS, he),
            (vkCreateFence (device dev), VK_SUCCESS, fence)] @ names) \<and>
        trace wa = trace w @ evs @
          [(vkBeginCommandBuffer cb VK_COMMAND_BUFFER_USAGE_ONE_TIME_SUBMIT_BIT, VK_SUCCESS, hb),
           (vkEndCommandBuffer cb, VK_SUCCESS, he),
           (vkCreateFence (device dev), VK_SUCCESS, fence)] @ names \<and>
        memory wa = memory w)"

text \<open>
  \<open>sentinel_submitted\<close>: the payload was called on the armed world and returned; the
  idle-wait on the default queue and the submission of the sentinel with the fence both
  succeeded, adding the events \<open>evs\<close> to what the payload left.
\<close>

definition sentinel_submitted ::
  "driver \<Rightarrow> handle \<Rightarrow> VulkanContext \<Rightarrow>
   (VulkanContext \<Rightarrow> world \<Rightarrow> error + VulkanContext \<times> world) \<Rightarrow> world \<Rightarrow>
   VulkanContext \<Rightarrow> world \<Rightarrow> VulkanDevice \<Rightarrow> handle \<Rightarrow> handle \<Rightarrow> event list \<Rightarrow> bool" where
  "sentinel_submitted drv cb_address ctx f w ctx' wp dev' q fence evs =
     (\<exists>cb wa ds hi hs.
        sentinel_armed drv ctx w cb fence wa \<and> f ctx wa = Inr (ctx', wp) \<and>
        devices ctx' = dev' # ds \<and> queue dev' = Some q \<and>
        evs = [(vkQueueWaitIdle q, VK_SUCCESS, hi),
               (vkQueueSubmit q
                  (zero_VkSubmitInfo\<lparr>sType := VK_STRUCTURE_TYPE_SUBMIT_INFO,
                     commandBufferCount := 1, pCommandBuffers := cb_address\<rparr>)
                  [cb] fence, VK_SUCCESS, hs)] \<and>
        answered drv (trace wp) evs)"

inductive crash_check_outcome ::
  "driver \<Rightarrow> handle \<Rightarrow> VulkanContext \<Rightarrow>
   (VulkanContext \<Rightarrow> world \<Rightarrow> error + VulkanContext \<times> world) \<Rightarrow> world \<Rightarrow>
   VkResult \<Rightarrow> VulkanContext \<Rightarrow> world \<Rightarrow> bool"
  for drv cb_address ctx f w
  where
    allocation_failed:
      "devices ctx = [dev] \<Longrightarrow> commandPool dev = Some pool \<Longrightarrow>
       respond drv (trace w)
         (vkAllocateCommandBuffers (device dev) pool VK_COMMAND_BUFFER_LEVEL_PRIMARY 1) = (res, h) \<Longrightarrow>
       res \<noteq> VK_SUCCESS \<Longrightarrow>
       trace w' = trace w @
         [(vkAllocateCommandBuffers (device dev) pool VK_COMMAND_BUFFER_LEVEL_PRIMARY 1, res, h)] \<Longrightarrow>
       memory w' = memory w \<Longrightarrow>
       crash_check_outcome drv cb_address ctx f w res ctx w'"
  | begin_failed:
      "sentinel_allocated drv ctx w dev cb evs \<Longrightarrow>
       tail = [(vkBeginCommandBuffer cb VK_COMMAND_BUFFER_USAGE_ONE_TIME_SUBMIT_BIT, res, h)] \<Longrightarrow>
       res \<noteq> VK_SUCCESS \<Longrightarrow> answered drv (trace w @ evs) tail \<Longrightarrow>
       trace w' = trace w @ evs @ tail \<Longrightarrow> memory w' = memory w \<Longrightarrow>
       crash_check_outcome drv cb_address ctx f w res ctx w'"
  | end_failed:
      "sentinel_allocated drv ctx w dev cb evs \<Longrightarrow>
       tail = [(vkBeginCommandBuffer cb VK_COMMAND_BUFFER_USAGE_ONE_TIME_SUBMIT_BIT, VK_SUCCESS, hb),
               (vkEndCommandBuffer cb, res, h)] \<Longrightarrow>
       res \<noteq> VK_SUCCESS \<Longrightarrow> answered drv (trace w @ evs) tail \<Longrightarrow>
       trace w' = trace w @ evs @ tail \<Longrightarrow> memory w' = memory w \<Longrightarrow>
       crash_check_outcome drv cb_address ctx f w res ctx w'"
  | fence_failed:
      "sentinel_allocated drv ctx w dev cb evs \<Longrightarrow>
       tail = [(vkBeginCommandBuffer cb VK_COMMAND_BUFFER_USAGE_ONE_TIME_SUBMIT_BIT, VK_SUCCESS, hb),
               (vkEndCommandBuffer cb, VK_SUCCESS, he),
               (vkCreateFence (device dev), res, h)] \<Longrightarrow>
       res \<noteq> VK_SUCCESS \<Longrightarrow> answered drv (trace w @ evs) tail \<Longrightarrow>
       trace w' = trace w @ evs @ tail \<Longrightarrow> memory w' = memory w \<Longrightarrow>
       crash_check_outcome drv cb_address ctx f w res ctx w'"
  | idle_failed:
      "sentinel_armed drv ctx w cb fence wa \<Longrightarrow> f ctx wa = Inr (ctx', wp) \<Longrightarrow>
       devices ctx' = dev' # ds \<Longrightarrow> queue dev' = Some q \<Longrightarrow>
       respond drv (trace wp) (vkQueueWaitIdle q) = (res, h) \<Longrightarrow> res \<noteq> VK_SUCCESS \<Longrightarrow>
       trace w' = trace wp @ [(vkQueueWaitIdle q, res, h)] \<Longrightarrow> memory w' = memory wp \<Longrightarrow>
       crash_check_outcome drv cb_address ctx f w res ctx' w'"
  | submit_failed:
      "sentinel_armed drv ctx w cb fence wa \<Longrightarrow> f ctx wa = Inr (ctx', wp) \<Longrightarrow>
       devices ctx' = dev' # ds \<Longrightarrow> queue dev' = Some q \<Longrightarrow>
       tail = [(vkQueueWaitIdle q, VK_SUCCESS, hi),
               (vkQueueSubmit q
                  (zero_VkSubmitInfo\<lparr>sType := VK_STRUCTURE_TYPE_SUBMIT_INFO,
                     commandBufferCount := 1, pCommandBuffers := cb_address\<rparr>)
                  [cb] fence, res, h)] \<Longrightarrow>
       res \<noteq> VK_SUCCESS \<Longrightarrow> answered drv (trace wp) tail \<Longrightarrow>
       trace w' = trace wp @ tail \<Longrightarrow> memory w' = memory wp \<Longrightarrow>
       crash_check_outcome drv cb_address ctx f w res ctx' w'"
  | fence_wait_failed:
      "sentinel_submitted drv cb_address ctx f w ctx' wp dev' q fence evs \<Longrightarrow>
       respond drv (trace wp @ evs)
         (vkWaitForFences (device dev') [fence] True 30000000000) = (res, h) \<Longrightarrow>
       res \<noteq> VK_SUCCESS \<Longrightarrow>
       trace w' = trace wp @ evs @
         [(vkWaitForFences (device dev') [fence] True 30000000000, res, h)] \<Longrightarrow>
       memory w' = memory wp \<Longrightarrow>
       crash_check_outcome drv cb_address ctx f w res ctx' w'"
  | fence_wait_succeeded:
      "sentinel_submitted drv cb_address ctx f w ctx' wp dev' q fence evs \<Longrightarrow>
       tail = [(vkWaitForFences (device dev') [fence] True 30000000000, VK_SUCCESS, hw),
               (vkQueueWaitIdle q, res, h)] \<Longrightarrow>
       answered drv (trace wp @ evs) tail \<Longrightarrow>
       trace w' = trace wp @ evs @ tail \<Longrightarrow> memory w' = memory wp \<Longrightarrow>
       crash_check_outcome drv cb_address ctx f w res ctx' w'"

text \<open>The calls that allocate device memory or bind a buffer to it.\<close>

fun is_memory_call :: "vk_call \<Rightarrow> bool" where
  "is_memory_call (vkAllocateMemory d s t) = True"
| "is_memory_call (vkBindBufferMemory d b m off) = True"
| "is_memory_call c = False"

subsection \<open>Flags and queue names (common.cc, lines 856 to 879)\<close>

text \<open>
  The flags that \<^verbatim>\<open>InitFlags\<close> has stored are a map from names to values;
  \<^verbatim>\<open>GetFlag\<close> gives a null pointer for a name that is not in it.
  \<^verbatim>\<open>QueueTypeFromString\<close> ends the process with \<^verbatim>\<open>EXIT_FAILURE\<close> on a name it does not
  know.
\<close>

type_synonym flags = "string \<rightharpoonup> string"

definition GetFlag :: "flags \<Rightarrow> string \<Rightarrow> string option" where
  "GetFlag values key = (if values key = None then None else values key)"

definition QueueTypeFromString :: "string option \<Rightarrow> QueueType \<Rightarrow> error + QueueType" where
  "QueueTypeFromString s default_type =
     (case s of
        None \<Rightarrow> Inr default_type
      | Some str \<Rightarrow>
          if str = [] then Inr default_type
          else if str = ''graphics'' \<or> str = ''Graphics'' then Inr Graphics
          else if str = ''compute'' \<or> str = ''Compute'' then Inr Compute
          else if str = ''transfer'' \<or> str = ''Transfer'' then Inr Transfer
          else Inl (ProcessExit 1))"

subsection \<open>Shader loading (common.cc, lines 754 to 793)\<close>

text \<open>
  A file either cannot be opened, or is opened but \<^verbatim>\<open>ftell\<close> gives \<open>-1\<close>, or is read
  as the bytes it holds. \<^verbatim>\<open>LoadShader\<close> returns \<^verbatim>\<open>false\<close> in the first two cases and
  leaves the \<^verbatim>\<open>VkShaderModule&\<close> that it was given untouched; otherwise
  \<^verbatim>\<open>CreateShader\<close> makes the module from the bytes, with the file length as
  \<^verbatim>\<open>codeSize\<close>.
\<close>

datatype disk_file = Unopenable | Unsized | Readable "8 word list"

type_synonym file_system = "string \<Rightarrow> disk_file"

definition CreateShader ::
  "driver \<Rightarrow> handle \<Rightarrow> 8 word list \<Rightarrow> int \<Rightarrow> world \<Rightarrow> error + bool \<times> handle \<times> world" where
  "CreateShader drv d code codeSize w =
     VK_CHECK_RESULT (vk drv (vkCreateShaderModule d code codeSize) w)
       (\<lambda>shader w'. Inr (True, shader, w'))"

definition LoadShader ::
  "driver \<Rightarrow> file_system \<Rightarrow> handle \<Rightarrow> string \<Rightarrow> handle option \<Rightarrow> world \<Rightarrow>
   error + bool \<times> handle option \<times> world" where
  "LoadShader drv fs d filename shader w =
     (case fs filename of
        Unopenable \<Rightarrow> Inr (False, shader, w)
      | Unsized \<Rightarrow> Inr (False, shader, w)
      | Readable buffer \<Rightarrow>
          and_then (CreateShader drv d buffer (int (length buffer)) w)
            (\<lambda>(result, created, w'). Inr (result, Some created, w')))"

subsection \<open>\<^verbatim>\<open>InitVulkanDevice\<close> (common.cc, lines 200 to 423)\<close>

text \<open>
  The first loop (lines 237 to 252) goes through the requested queue classes with three
  locals: the create infos, one per queue family met so far, with the number of queues
  asked of that family; the pair (family, index within the family) of every queue; and
  the \<^verbatim>\<open>std::map\<close> from a family to the position of its create info. \<open>map_index\<close> is
  \<^verbatim>\<open>operator[]\<close> of that map, which gives 0 for a missing key. The priorities that
  \<^verbatim>\<open>pQueuePriorities\<close> points at are left out.
\<close>

record queue_selection =
  queue_create_infos :: "VkDeviceQueueCreateInfo list"
  queue_indices :: "(32 word \<times> 32 word) list"
  create_info_indices :: "32 word \<rightharpoonup> nat"

definition map_index :: "(32 word \<rightharpoonup> nat) \<Rightarrow> 32 word \<Rightarrow> nat" where
  "map_index m k = (case m k of None \<Rightarrow> 0 | Some i \<Rightarrow> i)"

definition select_queue :: "32 word \<Rightarrow> queue_selection \<Rightarrow> queue_selection" where
  "select_queue queue_family_index st =
     (let st1 =
            (if create_info_indices st queue_family_index = None
             then st\<lparr>create_info_indices :=
                       (create_info_indices st)
                         (queue_family_index \<mapsto> length (queue_create_infos st)),
                     queue_create_infos :=
                       queue_create_infos st @
                         [\<lparr>queueFamilyIndex = queue_family_index, createQueueCount = 0\<rparr>]\<rparr>
             else st);
          create_info_index = map_index (create_info_indices st1) queue_family_index;
          queue_info = queue_create_infos st1 ! create_info_index;
          queue_index = createQueueCount queue_info
      in st1\<lparr>queue_create_infos :=
                (queue_create_infos st1)
                  [create_info_index := queue_info\<lparr>createQueueCount := queue_index + 1\<rparr>],
              queue_indices := queue_indices st1 @ [(queue_family_index, queue_index)]\<rparr>)"

fun select_queues ::
  "VkQueueFamilyProperties list \<Rightarrow> QueueType list \<Rightarrow> queue_selection \<Rightarrow> queue_selection" where
  "select_queues families [] st = st"
| "select_queues families (queue_type # rest) st =
     select_queues families rest (select_queue (SelectQueue families queue_type) st)"

text \<open>
  The second loop (lines 315 to 328): for each pair, the queue handle is fetched and
  appended, and a command pool for the family is created and appended.
\<close>

fun create_queues_and_pools ::
  "driver \<Rightarrow> handle \<Rightarrow> (32 word \<times> 32 word) list \<Rightarrow> VulkanDevice \<Rightarrow> world \<Rightarrow>
   error + VulkanDevice \<times> world" where
  "create_queues_and_pools drv vk_device [] dev w = Inr (dev, w)"
| "create_queues_and_pools drv vk_device (queue_index # rest) dev w =
     (let dev1 = dev\<lparr>queues := queues dev @
                   [device_queue drv vk_device (fst queue_index) (snd queue_index)]\<rparr>
      in VK_CHECK_RESULT (vk drv (vkCreateCommandPool vk_device (fst queue_index)) w)
           (\<lambda>pool w1. create_queues_and_pools drv vk_device rest
              (dev1\<lparr>commandPools := commandPools dev1 @ [pool]\<rparr>) w1))"

text \<open>\<^verbatim>\<open>front()\<close> of a vector, which has no defined result on an empty one.\<close>

definition front :: "'a list \<Rightarrow> error + 'a" where
  "front xs = (case xs of [] \<Rightarrow> Inl (UndefinedBehaviour ''front() of an empty vector'')
               | x # _ \<Rightarrow> Inr x)"

text \<open>
  The body of \<^verbatim>\<open>if (nullptr != shader_module_path)\<close> (lines 339 to 417), on the device
  record and the world as they are at line 339. What \<^verbatim>\<open>LoadShader\<close> returns is not looked
  at (line 340), and the run goes on when it is \<^verbatim>\<open>false\<close>. Line 402 reads the member
  \<^verbatim>\<open>computeShaderModule\<close> for the pipeline stage whether or not it was assigned; a member
  that was never assigned holds the bits that the local \<^verbatim>\<open>VulkanDevice device;\<close> happened
  to get, which is the parameter \<open>unassigned\<close>, and stays unset in the record.
\<close>

definition load_kernel ::
  "driver \<Rightarrow> file_system \<Rightarrow> handle \<Rightarrow> handle \<Rightarrow> string \<Rightarrow> VulkanDevice \<Rightarrow> world \<Rightarrow>
   error + VulkanDevice \<times> world" where
  "load_kernel drv fs unassigned vk_device path dev w =
     and_then (LoadShader drv fs vk_device path (computeShaderModule dev) w)
       (\<lambda>(_, shader, w10).
     let dev4 = dev\<lparr>computeShaderModule := shader\<rparr> in
     VK_CHECK_RESULT
       (vk drv (vkCreateDescriptorPool vk_device
                  [(VK_DESCRIPTOR_TYPE_STORAGE_BUFFER, 2)] 2) w10) (\<lambda>pool w11.
     let dev5 = dev4\<lparr>descriptorPool := Some pool\<rparr>;
         descriptorSetLayoutBinding =
           \<lparr>binding = 0, descriptorType = VK_DESCRIPTOR_TYPE_STORAGE_BUFFER,
            descriptorCount = 1, stageFlags = VK_SHADER_STAGE_ALL\<rparr>;
         descriptorSetLayoutBindings =
           [descriptorSetLayoutBinding, descriptorSetLayoutBinding\<lparr>binding := 1\<rparr>]
     in
     VK_CHECK_RESULT
       (vk drv (vkCreateDescriptorSetLayout vk_device descriptorSetLayoutBindings) w11)
       (\<lambda>set_layout w12.
     let dev6 = dev5\<lparr>descriptorSetLayout := Some set_layout\<rparr> in
     VK_CHECK_RESULT (vk drv (vkCreatePipelineLayout vk_device [set_layout]) w12)
       (\<lambda>pipeline_layout w13.
     let dev7 = dev6\<lparr>pipelineLayout := Some pipeline_layout\<rparr> in
     and_then (SetObjectDebugName drv dev7 pipeline_layout VK_OBJECT_TYPE_PIPELINE_LAYOUT
                 (Some ''Default PipelineLayout'') w13) (\<lambda>w14.
     let shader_module = (case computeShaderModule dev7 of
                            None \<Rightarrow> unassigned
                          | Some assigned \<Rightarrow> assigned)
     in
     VK_CHECK_RESULT
       (vk drv (vkCreateComputePipelines vk_device VK_SHADER_STAGE_COMPUTE_BIT
                  shader_module ''main'' pipeline_layout) w14) (\<lambda>created w15.
     let dev8 = dev7\<lparr>pipeline := Some created\<rparr> in
     and_then (SetObjectDebugName drv dev8 created VK_OBJECT_TYPE_PIPELINE
                 (Some ''Default ComputePipeline'') w15) (\<lambda>w16.
     Inr (dev8, w16))))))))"

text \<open>
  \<open>device_extensions\<close>, \<open>shader_module_path\<close> and \<open>queues_arg\<close> are the three pointer
  parameters, \<open>None\<close> for \<^verbatim>\<open>nullptr\<close>. An extension name is a \<^verbatim>\<open>const char*\<close>: the
  address it holds and the characters found there. \<^verbatim>\<open>std::find\<close> at lines 271 to 273
  compares these addresses with the address of the string literal
  \<^verbatim>\<open>"VK_KHR_timeline_semaphore"\<close> of \<^verbatim>\<open>common.cc\<close>, which is the parameter
  \<open>timeline_name\<close>; the characters play no part in it. \<open>unassigned\<close> is as for
  \<open>load_kernel\<close>. The second \<^verbatim>\<open>vkEnumeratePhysicalDevices\<close> fills a vector of the size
  that the first one reported. The device record starts as \<^verbatim>\<open>VulkanDevice device;\<close>
  leaves it, with the members that lines 283 to 302 assign. Logging and the queries of
  \<^verbatim>\<open>vkGetPhysicalDeviceProperties\<close> and \<^verbatim>\<open>PrintPhysicalDeviceMemory\<close> leave no trace.
  The result is the returned \<^verbatim>\<open>VkDevice\<close>, the context and the world.
\<close>

type_synonym c_string = "handle \<times> string"

definition InitVulkanDevice ::
  "driver \<Rightarrow> flags \<Rightarrow> file_system \<Rightarrow> handle \<Rightarrow> handle \<Rightarrow> VulkanContext \<Rightarrow>
   c_string list option \<Rightarrow> string option \<Rightarrow> QueueType list option \<Rightarrow> world \<Rightarrow>
   error + handle \<times> VulkanContext \<times> world" where
  "InitVulkanDevice drv values fs timeline_name unassigned context device_extensions
     shader_module_path queues_arg w0 =
     and_then
       (case queues_arg of
          None \<Rightarrow> and_then (QueueTypeFromString (GetFlag values ''--queue'') Graphics)
                    (\<lambda>queue_type. Inr [queue_type])
        | Some given \<Rightarrow> Inr given) (\<lambda>queue_types.
     VK_CHECK_RESULT (vk drv (vkEnumeratePhysicalDevices (vk_instance context) None) w0) (\<lambda>_ w1.
     let numPhysicalDevices = length (physical_devices drv (vk_instance context)) in
     VK_CHECK_RESULT
       (vk drv (vkEnumeratePhysicalDevices (vk_instance context) (Some numPhysicalDevices)) w1)
       (\<lambda>_ w2.
     let physicalDevices = take numPhysicalDevices (physical_devices drv (vk_instance context)) in
     and_then (front physicalDevices) (\<lambda>physicalDevice.
     let context1 = context\<lparr>context_physicalDevice := physicalDevice\<rparr>;
         selection = select_queues (queue_family_properties drv physicalDevice) queue_types
                       \<lparr>queue_create_infos = [], queue_indices = [],
                        create_info_indices = Map.empty\<rparr>;
         extension_names = (case device_extensions of
                              None \<Rightarrow> []
                            | Some names \<Rightarrow> map snd names);
         timeline = (case device_extensions of
                       None \<Rightarrow> False
                     | Some names \<Rightarrow> timeline_name \<in> set (map fst names))
     in
     VK_CHECK_RESULT
       (vk drv (vkCreateDevice physicalDevice (queue_create_infos selection) extension_names
                  timeline) w2) (\<lambda>vk_device w3.
     let dev =
           \<lparr>device = vk_device, physicalDevice = physicalDevice, queues = [], queue = None,
            CmdWriteBufferMarkerAMD = device_proc_addr drv vk_device ''vkCmdWriteBufferMarkerAMD'',
            SignalSemaphoreKHR = device_proc_addr drv vk_device ''vkSignalSemaphoreKHR'',
            WaitSemaphoresKHR = device_proc_addr drv vk_device ''vkWaitSemaphoresKHR'',
            SetDebugUtilsObjectNameEXT =
              (if GetFlag values ''--debug_utils'' \<noteq> None
               then DriverSetDebugUtilsObjectNameEXT
                      (device_proc_addr drv vk_device ''vkSetDebugUtilsObjectNameEXT'')
               else DummySetDebugUtilsObjectNameEXT),
            commandPools = [], commandPool = None, computeShaderModule = None,
            descriptorSetLayout = None, pipelineLayout = None, pipeline = None,
            descriptorPool = None, descriptorSet = None, bufferIn = None, bufferOut = None,
            bufferMemory = None, numBuffers = 2, numBufferEntries = 256, bufferSize = 4 * 256,
            memorySize = 2 * (4 * 256)\<rparr>
     in
     and_then (SetObjectDebugName drv dev vk_device VK_OBJECT_TYPE_DEVICE
                 (Some ''Default Device'') w3) (\<lambda>w4.
     and_then (SetObjectDebugName drv dev (vk_instance context1) VK_OBJECT_TYPE_INSTANCE
                 (Some ''Default Instance'') w4) (\<lambda>w5.
     and_then (SetObjectDebugName drv dev (context_physicalDevice context1)
                 VK_OBJECT_TYPE_PHYSICAL_DEVICE (Some ''Default PhysicalDevice'') w5) (\<lambda>w6.
     if queue_indices selection = []
     then Inr (vk_device, context1\<lparr>devices := devices context1 @ [dev]\<rparr>, w6)
     else
     and_then (create_queues_and_pools drv vk_device (queue_indices selection) dev w6)
       (\<lambda>(dev1, w7).
     and_then (front (queues dev1)) (\<lambda>default_queue.
     let dev2 = dev1\<lparr>queue := Some default_queue\<rparr> in
     and_then (SetObjectDebugName drv dev2 default_queue VK_OBJECT_TYPE_QUEUE
                 (Some ''Default Queue'') w7) (\<lambda>w8.
     and_then (front (commandPools dev2)) (\<lambda>default_pool.
     let dev3 = dev2\<lparr>commandPool := Some default_pool\<rparr> in
     and_then (SetObjectDebugName drv dev3 default_pool VK_OBJECT_TYPE_COMMAND_POOL
                 (Some ''Default CommandPool'') w8) (\<lambda>w9.
     and_then
       (case shader_module_path of
          None \<Rightarrow> Inr (dev3, w9)
        | Some path \<Rightarrow>
            load_kernel drv fs unassigned vk_device path dev3 w9)
       (\<lambda>(registered, w17).
     Inr (vk_device, context1\<lparr>devices := devices context1 @ [registered]\<rparr>, w17)))))))))))))))"



subsection \<open>A concrete driver, device and world\<close>

text \<open>
  For the examples below: a driver that answers every call with \<^verbatim>\<open>VK_SUCCESS\<close> and
  hands out the handles 1, 2, 3, ... in the order of the calls; one physical device with
  three queue families (all capabilities; compute and transfer; transfer only) and three
  memory types; a device as \<^verbatim>\<open>InitVulkanDevice\<close> leaves it without \<^verbatim>\<open>--debug_utils\<close>,
  with the default sizes; and a world with no call made yet, whose memory holds a
  non-zero pattern everywhere.
\<close>

definition example_driver :: driver where
  "example_driver =
     \<lparr>respond = (\<lambda>tr c. (VK_SUCCESS, word_of_nat (length tr) + 1)),
      physical_devices = (\<lambda>i. [100]),
      queue_family_properties = (\<lambda>p. [\<lparr>queueFlags = 7, queueCount = 16\<rparr>,
        \<lparr>queueFlags = 6, queueCount = 2\<rparr>, \<lparr>queueFlags = 4, queueCount = 1\<rparr>]),
      memory_types = (\<lambda>p. [\<lparr>propertyFlags = 1, heapIndex = 0\<rparr>,
        \<lparr>propertyFlags = 6, heapIndex = 1\<rparr>, \<lparr>propertyFlags = 14, heapIndex = 1\<rparr>]),
      buffer_memory_type_bits = (\<lambda>d b. 7),
      device_proc_addr = (\<lambda>d n. 0),
      device_queue = (\<lambda>d f i. 4096 + 16 * ucast f + ucast i)\<rparr>"

definition example_device :: VulkanDevice where
  "example_device =
     \<lparr>device = 10, physicalDevice = 100, queues = [4096], queue = Some 4096,
      CmdWriteBufferMarkerAMD = 0, SignalSemaphoreKHR = 0, WaitSemaphoresKHR = 0,
      SetDebugUtilsObjectNameEXT = DummySetDebugUtilsObjectNameEXT,
      commandPools = [20], commandPool = Some 20, computeShaderModule = None,
      descriptorSetLayout = None, pipelineLayout = None, pipeline = None,
      descriptorPool = None, descriptorSet = None, bufferIn = None, bufferOut = None,
      bufferMemory = None, numBuffers = 2, numBufferEntries = 256, bufferSize = 1024,
      memorySize = 2048\<rparr>"

definition example_world :: world where
  "example_world = \<lparr>trace = [], memory = (\<lambda>h k. UInt32 3735928559)\<rparr>"

text \<open>
  The example device with \<open>2^24 + 1\<close> buffer entries, the sizes following as the member
  initialisers compute them.
\<close>

definition large_device :: VulkanDevice where
  "large_device = example_device
     \<lparr>numBufferEntries := 16777217, bufferSize := 67108868, memorySize := 134217736\<rparr>"

text \<open>
  For the crash-check protocol: a context holding the example device alone; a payload
  that submits one command buffer of its own to the default queue and returns; a driver
  that reports a lost device at every fence wait; and, for a run with \<^verbatim>\<open>--debug_utils\<close>,
  a context whose device names objects through the driver's function, with a driver that
  answers every naming call with \<^verbatim>\<open>VK_ERROR_OUT_OF_HOST_MEMORY\<close>.
\<close>

definition example_context :: VulkanContext where
  "example_context =
     \<lparr>vk_instance = 1000, context_physicalDevice = 100, devices = [example_device],
      apiVersion = 4194304, instanceExtensions = [], instanceLayers = [],
      test_termination_timer_ms = kTestTerminationTimerMsDefault\<rparr>"

definition example_payload ::
  "driver \<Rightarrow> VulkanContext \<Rightarrow> world \<Rightarrow> error + VulkanContext \<times> world" where
  "example_payload drv ctx w =
     Inr (ctx, snd (vk drv (vkQueueSubmit 4096
       (zero_VkSubmitInfo\<lparr>sType := VK_STRUCTURE_TYPE_SUBMIT_INFO, commandBufferCount := 1,
          pCommandBuffers := 8\<rparr>) [77] 0) w))"

definition lost_driver :: driver where
  "lost_driver = example_driver
     \<lparr>respond := (\<lambda>tr c. case c of
         vkWaitForFences d fences wait_all ns \<Rightarrow> (VK_ERROR_DEVICE_LOST, 0)
       | _ \<Rightarrow> (VK_SUCCESS, word_of_nat (length tr) + 1))\<rparr>"

definition naming_driver :: driver where
  "naming_driver = example_driver
     \<lparr>respond := (\<lambda>tr c. case c of
         vkSetDebugUtilsObjectNameEXT d object_type h n \<Rightarrow> (VK_ERROR_OUT_OF_HOST_MEMORY, 0)
       | _ \<Rightarrow> (VK_SUCCESS, word_of_nat (length tr) + 1))\<rparr>"

definition named_context :: VulkanContext where
  "named_context = example_context
     \<lparr>devices := [example_device
        \<lparr>SetDebugUtilsObjectNameEXT := DriverSetDebugUtilsObjectNameEXT 9\<rparr>]\<rparr>"

text \<open>
  For device initialisation: a file system that holds one kernel file of eight bytes, and a
  context as \<^verbatim>\<open>InitVulkanInstance\<close> leaves it, with an instance and no device yet.
\<close>

definition example_files :: file_system where
  "example_files = (\<lambda>filename.
     if filename = ''read_write.comp.spv'' then Readable [3, 2, 35, 7, 0, 0, 1, 0]
     else Unopenable)"

definition example_instance_context :: VulkanContext where
  "example_instance_context =
     \<lparr>vk_instance = 1000, context_physicalDevice = 0, devices = [],
      apiVersion = 4194304, instanceExtensions = [], instanceLayers = [],
      test_termination_timer_ms = kTestTerminationTimerMsDefault\<rparr>"

section \<open>Properties\<close>

subsection \<open>Queue family selection\<close>

lemma and_1_bit: "(x AND (1::32 word) \<noteq> 0) = bit x 0"
  using bit_iff_and_push_bit_not_eq_0 [of x 0] by simp

lemma eq_and_1_bit: "(1 = x AND (1::32 word)) = bit x 0"
  by (cases "odd x") (simp_all add: and_one_eq bit_0 odd_iff_mod_2_eq_one)

lemma and_2_bit: "(x AND (2::32 word) \<noteq> 0) = bit x 1"
  using bit_iff_and_push_bit_not_eq_0 [of x 1] by simp

lemma and_4_bit: "(x AND (4::32 word) \<noteq> 0) = bit x 2"
  using bit_iff_and_push_bit_not_eq_0 [of x 2] by simp

lemma queue_predicate_rule: "queue_predicate c q = class_rule c (queueFlags q)"
  by (cases c) (simp_all add: queue_predicate_def class_rule_def VK_QUEUE_GRAPHICS_BIT_def
      VK_QUEUE_COMPUTE_BIT_def VK_QUEUE_TRANSFER_BIT_def and_1_bit eq_and_1_bit and_2_bit
      and_4_bit)

lemma find_if_distance_le: "find_if_distance P xs \<le> length xs"
  by (induction xs) auto

lemma find_if_distance_hit:
  "find_if_distance P xs < length xs \<Longrightarrow> P (xs ! find_if_distance P xs)"
  by (induction xs) (auto split: if_splits)

lemma find_if_distance_first: "j < find_if_distance P xs \<Longrightarrow> \<not> P (xs ! j)"
  by (induction xs arbitrary: j) (auto split: if_splits simp: nth_Cons')

lemma find_if_distance_none:
  "(find_if_distance P xs = length xs) = (\<forall>x \<in> set xs. \<not> P x)"
  using find_if_distance_le [of P]
  by (induction xs) (auto split: if_splits)

lemma unat_SelectQueue:
  assumes "length qs < 2 ^ 32"
  shows "unat (SelectQueue qs c) = find_if_distance (queue_predicate c) qs"
proof -
  have "find_if_distance (queue_predicate c) qs < 2 ^ 32"
    using find_if_distance_le [of "queue_predicate c" qs] assms by simp
  then show ?thesis
    by (simp add: SelectQueue_def unat_of_nat)
qed

text \<open>
  C2. For every list of queue-family descriptors (at most \<open>2^32 - 1\<close> of them, the count
  being a \<^verbatim>\<open>uint32_t\<close>) and every requested class, the index that \<open>SelectQueue\<close> returns
  is at most the family count; when it is below the count, the family at that index
  satisfies the rule of the class (Compute: compute and not graphics; Transfer: transfer
  and neither graphics nor compute; Graphics and every other value: graphics) and no
  earlier family does; and it equals the family count, an out-of-range index, exactly when
  no family satisfies the rule.
\<close>

theorem SelectQueue_first_match:
  assumes "length qs < 2 ^ 32"
  shows "unat (SelectQueue qs c) \<le> length qs \<and>
         (unat (SelectQueue qs c) < length qs \<longrightarrow>
            class_rule c (queueFlags (qs ! unat (SelectQueue qs c)))) \<and>
         (\<forall>j < unat (SelectQueue qs c). \<not> class_rule c (queueFlags (qs ! j))) \<and>
         ((unat (SelectQueue qs c) = length qs) = (\<forall>q \<in> set qs. \<not> class_rule c (queueFlags q)))"
proof -
  let ?i = "find_if_distance (queue_predicate c) qs"
  have i: "unat (SelectQueue qs c) = ?i"
    by (rule unat_SelectQueue [OF assms])
  have "?i \<le> length qs"
    by (rule find_if_distance_le)
  moreover have "?i < length qs \<longrightarrow> class_rule c (queueFlags (qs ! ?i))"
    using find_if_distance_hit [of "queue_predicate c" qs] by (simp add: queue_predicate_rule)
  moreover have "\<forall>j < ?i. \<not> class_rule c (queueFlags (qs ! j))"
    using find_if_distance_first [of _ "queue_predicate c" qs] by (simp add: queue_predicate_rule)
  moreover have "(?i = length qs) = (\<forall>q \<in> set qs. \<not> class_rule c (queueFlags q))"
    by (simp add: find_if_distance_none queue_predicate_rule)
  ultimately show ?thesis
    unfolding i by blast
qed

theorem SelectQueue_first_match_witness:
  "length [\<lparr>queueFlags = 7, queueCount = 16\<rparr>, \<lparr>queueFlags = 6, queueCount = 2\<rparr>,
           \<lparr>queueFlags = 4, queueCount = 1\<rparr>] < (2::nat) ^ 32 \<and>
   SelectQueue [\<lparr>queueFlags = 7, queueCount = 16\<rparr>, \<lparr>queueFlags = 6, queueCount = 2\<rparr>,
           \<lparr>queueFlags = 4, queueCount = 1\<rparr>] Compute = 1 \<and>
   class_rule Compute (queueFlags ([\<lparr>queueFlags = 7, queueCount = 16\<rparr>, \<lparr>queueFlags = 6, queueCount = 2\<rparr>,
           \<lparr>queueFlags = 4, queueCount = 1\<rparr>] ! 1)) \<and>
   \<not> class_rule Compute (queueFlags ([\<lparr>queueFlags = 7, queueCount = 16\<rparr>, \<lparr>queueFlags = 6, queueCount = 2\<rparr>,
           \<lparr>queueFlags = 4, queueCount = 1\<rparr>] ! 0))"
proof -
  let ?qs = "[\<lparr>queueFlags = 7, queueCount = 16\<rparr>, \<lparr>queueFlags = 6, queueCount = 2\<rparr>,
           \<lparr>queueFlags = 4, queueCount = (1::32 word)\<rparr>]"
  have h: "length ?qs < (2::nat) ^ 32" by simp
  have v: "SelectQueue ?qs Compute = 1"
    by (simp add: SelectQueue_def queue_predicate_def VK_QUEUE_GRAPHICS_BIT_def
        VK_QUEUE_COMPUTE_BIT_def)
  from SelectQueue_first_match [OF h, of Compute] v h show ?thesis
    by simp
qed

subsection \<open>Memory type selection\<close>

lemma and_pow_bit: "(bits AND (2::32 word) ^ i \<noteq> 0) = bit bits i"
  using bit_iff_and_push_bit_not_eq_0 [of bits i] by (simp add: push_bit_of_1)

lemma flags_superset:
  "(f AND p = p) = (\<forall>k. bit p k \<longrightarrow> bit (f::32 word) k)"
proof
  assume "f AND p = p"
  then show "\<forall>k. bit p k \<longrightarrow> bit f k"
    by (metis bit_and_iff)
next
  assume "\<forall>k. bit p k \<longrightarrow> bit f k"
  then show "f AND p = p"
    by (auto simp: bit_eq_iff bit_and_iff)
qed

lemma loop_test:
  "((bits AND push_bit i 1) \<noteq> 0 \<and> (propertyFlags (mts ! i) AND props) = props) =
   memory_type_ok mts bits props i"
  by (simp add: memory_type_ok_def and_pow_bit flags_superset)

lemma FindMemoryType_loop_unfold:
  "FindMemoryType_loop mts bits props i =
     (if i < length mts then
        (if memory_type_ok mts bits props i then word_of_nat i
         else FindMemoryType_loop mts bits props (Suc i))
      else - 1)"
  by (subst FindMemoryType_loop.simps) (simp only: loop_test)

lemma FindMemoryType_loop_spec:
  "(\<exists>r. i \<le> r \<and> r < length mts \<and> FindMemoryType_loop mts bits props i = word_of_nat r \<and>
        memory_type_ok mts bits props r \<and>
        (\<forall>j. i \<le> j \<and> j < r \<longrightarrow> \<not> memory_type_ok mts bits props j)) \<or>
   (FindMemoryType_loop mts bits props i = - 1 \<and>
    (\<forall>j. i \<le> j \<and> j < length mts \<longrightarrow> \<not> memory_type_ok mts bits props j))"
proof (induction mts bits props i rule: FindMemoryType_loop.induct)
  case (1 mts bits props i)
  show ?case
  proof (cases "i < length mts")
    case False
    then show ?thesis
      by (auto simp add: FindMemoryType_loop_unfold [of mts bits props i])
  next
    case True
    show ?thesis
    proof (cases "memory_type_ok mts bits props i")
      case ok: True
      have "FindMemoryType_loop mts bits props i = word_of_nat i"
        using True ok by (simp add: FindMemoryType_loop_unfold [of mts bits props i])
      with True ok show ?thesis by auto
    next
      case no: False
      have step: "FindMemoryType_loop mts bits props i = FindMemoryType_loop mts bits props (Suc i)"
        using True no by (simp add: FindMemoryType_loop_unfold [of mts bits props i])
      have "\<not> ((bits AND push_bit i 1) \<noteq> 0 \<and> (propertyFlags (mts ! i) AND props) = props)"
        unfolding loop_test by (rule no)
      from "1.IH" [OF True this] show ?thesis
      proof
        assume "\<exists>r\<ge>Suc i. r < length mts \<and> FindMemoryType_loop mts bits props (Suc i) = word_of_nat r \<and>
          memory_type_ok mts bits props r \<and> (\<forall>j. Suc i \<le> j \<and> j < r \<longrightarrow> \<not> memory_type_ok mts bits props j)"
        then obtain r where r: "Suc i \<le> r" "r < length mts"
          "FindMemoryType_loop mts bits props (Suc i) = word_of_nat r"
          "memory_type_ok mts bits props r"
          "\<forall>j. Suc i \<le> j \<and> j < r \<longrightarrow> \<not> memory_type_ok mts bits props j"
          by blast
        have "\<forall>j. i \<le> j \<and> j < r \<longrightarrow> \<not> memory_type_ok mts bits props j"
          using r(5) no by (metis Suc_leI le_neq_implies_less)
        with r step show ?thesis
          by (metis Suc_leD)
      next
        assume a: "FindMemoryType_loop mts bits props (Suc i) = - 1 \<and>
          (\<forall>j. Suc i \<le> j \<and> j < length mts \<longrightarrow> \<not> memory_type_ok mts bits props j)"
        have "\<forall>j. i \<le> j \<and> j < length mts \<longrightarrow> \<not> memory_type_ok mts bits props j"
          using a no by (metis Suc_leI le_neq_implies_less)
        with a step show ?thesis by simp
      qed
    qed
  qed
qed

text \<open>
  C5. For every type bitmask and every mask of required property flags, over the at most
  32 memory types of a physical device: when some index has its bit set in the bitmask
  and property flags that contain the required flags, \<open>FindMemoryType\<close> returns the
  lowest such index; when no index does, it returns the sentinel \<open>0xFFFFFFFF\<close>
  (unsigned \<open>-1\<close>), which is out of range.
\<close>

theorem FindMemoryType_lowest_index:
  assumes "length mts \<le> 32"
  shows "((\<exists>i < length mts. memory_type_ok mts bits props i) \<longrightarrow>
            unat (FindMemoryType mts bits props) < length mts \<and>
            memory_type_ok mts bits props (unat (FindMemoryType mts bits props)) \<and>
            (\<forall>j < unat (FindMemoryType mts bits props). \<not> memory_type_ok mts bits props j)) \<and>
         ((\<forall>i < length mts. \<not> memory_type_ok mts bits props i) \<longrightarrow>
            FindMemoryType mts bits props = 4294967295 \<and>
            \<not> unat (FindMemoryType mts bits props) < length mts)"
proof -
  from FindMemoryType_loop_spec [of 0 mts bits props]
  consider r where "r < length mts" "FindMemoryType mts bits props = word_of_nat r"
      "memory_type_ok mts bits props r" "\<forall>j < r. \<not> memory_type_ok mts bits props j"
    | "FindMemoryType mts bits props = - 1" "\<forall>j < length mts. \<not> memory_type_ok mts bits props j"
    unfolding FindMemoryType_def by auto
  then show ?thesis
  proof cases
    case 1
    have "r < 2 ^ 32" using 1(1) assms by simp
    then have "unat (FindMemoryType mts bits props) = r"
      by (simp add: 1(2) unat_of_nat)
    with 1 show ?thesis by auto
  next
    case 2
    have "unat (FindMemoryType mts bits props) = 4294967295"
      by (simp add: 2(1) unsigned_minus_1_eq_mask mask_eq_exp_minus_1)
    with 2 assms show ?thesis by auto
  qed
qed

theorem FindMemoryType_lowest_index_witness:
  "length [\<lparr>propertyFlags = 1, heapIndex = 0\<rparr>, \<lparr>propertyFlags = 6, heapIndex = 1\<rparr>,
           \<lparr>propertyFlags = 14, heapIndex = (1::32 word)\<rparr>] \<le> 32 \<and>
   FindMemoryType [\<lparr>propertyFlags = 1, heapIndex = 0\<rparr>, \<lparr>propertyFlags = 6, heapIndex = 1\<rparr>,
           \<lparr>propertyFlags = 14, heapIndex = 1\<rparr>] 7 6 = 1 \<and>
   memory_type_ok [\<lparr>propertyFlags = 1, heapIndex = 0\<rparr>, \<lparr>propertyFlags = 6, heapIndex = 1\<rparr>,
           \<lparr>propertyFlags = 14, heapIndex = 1\<rparr>] 7 6 1 \<and>
   \<not> memory_type_ok [\<lparr>propertyFlags = 1, heapIndex = 0\<rparr>, \<lparr>propertyFlags = 6, heapIndex = 1\<rparr>,
           \<lparr>propertyFlags = 14, heapIndex = 1\<rparr>] 7 6 0"
proof -
  let ?mts = "[\<lparr>propertyFlags = 1, heapIndex = 0\<rparr>, \<lparr>propertyFlags = 6, heapIndex = 1\<rparr>,
           \<lparr>propertyFlags = 14, heapIndex = (1::32 word)\<rparr>]"
  have h: "length ?mts \<le> 32" by simp
  have "FindMemoryType_loop ?mts 7 6 0 = FindMemoryType_loop ?mts 7 6 (Suc 0)"
    by (subst FindMemoryType_loop.simps) simp
  also have "\<dots> = 1"
    by (subst FindMemoryType_loop.simps) simp
  finally have v: "FindMemoryType ?mts 7 6 = 1"
    by (simp add: FindMemoryType_def)
  have ok: "memory_type_ok ?mts 7 6 1"
    by (simp add: memory_type_ok_def)
  then have e: "\<exists>i < length ?mts. memory_type_ok ?mts 7 6 i"
    by (intro exI [of _ 1]) simp
  from FindMemoryType_lowest_index [OF h, of 7 6] e
  have "\<forall>j < unat (FindMemoryType ?mts 7 6). \<not> memory_type_ok ?mts 7 6 j"
    by blast
  then have "\<not> memory_type_ok ?mts 7 6 0"
    unfolding v by simp
  with h v ok show ?thesis
    by (intro conjI)
qed

subsection \<open>The watchdog\<close>

lemma SetupWatchdogTimer_started:
  "watchdog_thread p \<noteq> None \<Longrightarrow> SetupWatchdogTimer c p = p"
  by (simp add: SetupWatchdogTimer_def)

lemma watchdog_thread_SetupWatchdogTimer:
  "watchdog_thread (SetupWatchdogTimer c p) \<noteq> None"
  by (simp add: SetupWatchdogTimer_def)

text \<open>
  C7. Calling \<open>SetupWatchdogTimer\<close> twice on the same context: the second call leaves
  the process as the first call left it, from any state; from the initial state of the
  process, exactly one thread has been created after the two calls, the exit handler is
  registered once, and the thread waits with the deadline of the context.
\<close>

theorem SetupWatchdogTimer_twice:
  "SetupWatchdogTimer c (SetupWatchdogTimer c p) = SetupWatchdogTimer c p \<and>
   threads_created (SetupWatchdogTimer c (SetupWatchdogTimer c initial_process)) = 1 \<and>
   atexit_handlers (SetupWatchdogTimer c (SetupWatchdogTimer c initial_process)) =
     [WaitForWatchdogThread_handler] \<and>
   watchdog_thread (SetupWatchdogTimer c (SetupWatchdogTimer c initial_process)) =
     Some \<lparr>timer_ms = test_termination_timer_ms c, thread_state = Waiting\<rparr>"
proof -
  have twice: "SetupWatchdogTimer c (SetupWatchdogTimer c q) = SetupWatchdogTimer c q" for q
    by (rule SetupWatchdogTimer_started) (rule watchdog_thread_SetupWatchdogTimer)
  show ?thesis
    unfolding twice by (simp add: SetupWatchdogTimer_def initial_process_def)
qed

lemma fold_exit_handlers_timedout:
  "test_timedout p \<Longrightarrow> fold run_exit_handler hs p = p"
proof (induction hs)
  case Nil
  then show ?case by simp
next
  case (Cons h hs)
  then show ?case by (cases h) (simp add: WaitForWatchdogThread_def)
qed

lemma WatchdogTimer_timeout:
  "WatchdogTimer timeout p =
     (set_thread_state Exiting (p\<lparr>test_timedout := True\<rparr>))\<lparr>exit_called := Some 0\<rparr>"
proof -
  have "test_timedout (set_thread_state Exiting (p\<lparr>test_timedout := True\<rparr>))"
    by (simp add: set_thread_state_def)
  then show ?thesis
    by (simp add: WatchdogTimer_def exit_process_def fold_exit_handlers_timedout)
qed

lemma WatchdogTimer_no_timeout: "WatchdogTimer no_timeout p = set_thread_state Returned p"
  by (simp add: WatchdogTimer_def)

lemma watchdog_state_of_WaitForWatchdogThread [simp]:
  "watchdog_state_of (WaitForWatchdogThread p) = watchdog_state_of p"
  by (simp add: WaitForWatchdogThread_def watchdog_state_of_def)

lemma test_timedout_WaitForWatchdogThread [simp]:
  "test_timedout (WaitForWatchdogThread p) = test_timedout p"
  by (simp add: WaitForWatchdogThread_def)

lemma exit_called_WaitForWatchdogThread [simp]:
  "exit_called (WaitForWatchdogThread p) = exit_called p"
  by (simp add: WaitForWatchdogThread_def)

lemma threads_created_WaitForWatchdogThread [simp]:
  "threads_created (WaitForWatchdogThread p) = threads_created p"
  by (simp add: WaitForWatchdogThread_def)

lemma watchdog_thread_WaitForWatchdogThread [simp]:
  "watchdog_thread (WaitForWatchdogThread p) = watchdog_thread p"
  by (simp add: WaitForWatchdogThread_def)

lemma test_timedout_SetupWatchdogTimer [simp]:
  "test_timedout (SetupWatchdogTimer c p) = test_timedout p"
  by (simp add: SetupWatchdogTimer_def)

lemma exit_called_SetupWatchdogTimer [simp]:
  "exit_called (SetupWatchdogTimer c p) = exit_called p"
  by (simp add: SetupWatchdogTimer_def)

lemma watchdog_state_of_SetupWatchdogTimer:
  "watchdog_state_of (SetupWatchdogTimer c p) =
     (if watchdog_state_of p = NotStarted then Running else watchdog_state_of p)"
  by (simp add: SetupWatchdogTimer_def watchdog_state_of_def split: option.splits thread_state.splits)

lemma Running_iff:
  "(watchdog_state_of p = Running) = (\<exists>t. watchdog_thread p = Some t \<and> thread_state t = Waiting)"
  by (auto simp: watchdog_state_of_def split: option.splits thread_state.splits)

lemma WatchdogTimer_from_Running:
  assumes "watchdog_state_of p = Running"
  shows "watchdog_state_of (WatchdogTimer timeout p) = TimedOut"
    and "test_timedout (WatchdogTimer timeout p)"
    and "exit_called (WatchdogTimer timeout p) = Some 0"
    and "watchdog_state_of (WatchdogTimer no_timeout p) = NotifiedFinished"
    and "test_timedout (WatchdogTimer no_timeout p) = test_timedout p"
    and "exit_called (WatchdogTimer no_timeout p) = exit_called p"
  using assms
  by (auto simp: WatchdogTimer_timeout WatchdogTimer_no_timeout set_thread_state_def
      watchdog_state_of_def split: option.splits thread_state.splits)

lemma process_step_final:
  assumes "process_step p q"
  shows "(watchdog_state_of p = TimedOut \<longrightarrow> watchdog_state_of q = TimedOut) \<and>
         (watchdog_state_of p = NotifiedFinished \<longrightarrow>
            watchdog_state_of q = NotifiedFinished \<and> test_timedout q = test_timedout p)"
  using assms
proof cases
  case (step_setup c)
  then show ?thesis by (simp add: watchdog_state_of_SetupWatchdogTimer)
next
  case (step_wake t status)
  then have "watchdog_state_of p = Running"
    by (simp add: Running_iff)
  then show ?thesis by simp
next
  case step_finish
  then show ?thesis by simp
qed

lemma process_steps_final:
  assumes "process_step\<^sup>*\<^sup>* p q"
  shows "(watchdog_state_of p = TimedOut \<longrightarrow> watchdog_state_of q = TimedOut) \<and>
         (watchdog_state_of p = NotifiedFinished \<longrightarrow>
            watchdog_state_of q = NotifiedFinished \<and> test_timedout q = test_timedout p)"
  using assms
proof (induction rule: rtranclp_induct)
  case base
  then show ?case by simp
next
  case (step y z)
  with process_step_final [of y z] show ?case by auto
qed

lemma process_step_flag_invariant:
  assumes "process_step p q" "flag_invariant p"
  shows "flag_invariant q"
  using assms
proof cases
  case (step_setup c)
  with assms(2) show ?thesis
    by (auto simp: flag_invariant_def watchdog_state_of_SetupWatchdogTimer)
next
  case (step_wake t status)
  then have r: "watchdog_state_of p = Running"
    by (simp add: Running_iff)
  show ?thesis
  proof (cases status)
    case no_timeout
    with step_wake r assms(2) WatchdogTimer_from_Running [OF r] show ?thesis
      by (simp add: flag_invariant_def)
  next
    case timeout
    with step_wake r assms(2) WatchdogTimer_from_Running [OF r] show ?thesis
      by (simp add: flag_invariant_def)
  qed
next
  case step_finish
  with assms(2) show ?thesis by (simp add: flag_invariant_def)
qed

lemma reachable_flag_invariant:
  assumes "process_step\<^sup>*\<^sup>* initial_process q"
  shows "flag_invariant q"
  using assms
proof (induction rule: rtranclp_induct)
  case base
  show ?case
    by (simp add: flag_invariant_def initial_process_def watchdog_state_of_def)
next
  case (step y z)
  then show ?case by (simp add: process_step_flag_invariant)
qed

text \<open>
  C6. The watchdog moves one way. When the wait of a running watchdog returns with a
  timeout, the watchdog is timed out, the process-wide flag is set and \<^verbatim>\<open>exit(0)\<close> has
  been called; when the wait returns otherwise, the watchdog is notified-finished and
  neither the flag nor the exit status has changed. One step from the running state leads
  to running, notified-finished or timed-out, never back to not-started. Timed-out and
  notified-finished are final: whatever happens afterwards, a timed-out watchdog stays
  timed out, and a notified-finished one stays notified-finished with the flag as it was,
  so no run reaches both. In every state that the process can reach from its initial
  state, the flag is set exactly when the watchdog is timed out (so never in the
  notified-finished state), and then the exit status is 0.
\<close>

theorem watchdog_one_directional:
  "(watchdog_state_of p = Running \<longrightarrow>
      watchdog_state_of (WatchdogTimer timeout p) = TimedOut \<and>
      test_timedout (WatchdogTimer timeout p) \<and>
      exit_called (WatchdogTimer timeout p) = Some 0 \<and>
      watchdog_state_of (WatchdogTimer no_timeout p) = NotifiedFinished \<and>
      test_timedout (WatchdogTimer no_timeout p) = test_timedout p \<and>
      exit_called (WatchdogTimer no_timeout p) = exit_called p) \<and>
   (process_step p q \<and> watchdog_state_of p = Running \<longrightarrow>
      watchdog_state_of q \<in> {Running, NotifiedFinished, TimedOut}) \<and>
   (process_step\<^sup>*\<^sup>* p q \<and> watchdog_state_of p = TimedOut \<longrightarrow>
      watchdog_state_of q = TimedOut) \<and>
   (process_step\<^sup>*\<^sup>* p q \<and> watchdog_state_of p = NotifiedFinished \<longrightarrow>
      watchdog_state_of q = NotifiedFinished \<and> test_timedout q = test_timedout p) \<and>
   (process_step\<^sup>*\<^sup>* initial_process q \<longrightarrow>
      test_timedout q = (watchdog_state_of q = TimedOut) \<and>
      (watchdog_state_of q = TimedOut \<longrightarrow> exit_called q = Some 0))"
proof (intro conjI impI)
  assume "process_step p q \<and> watchdog_state_of p = Running"
  then have s: "process_step p q" and r: "watchdog_state_of p = Running"
    by simp_all
  from s show "watchdog_state_of q \<in> {Running, NotifiedFinished, TimedOut}"
  proof cases
    case (step_setup c)
    with r show ?thesis by (simp add: watchdog_state_of_SetupWatchdogTimer)
  next
    case (step_wake t status)
    with WatchdogTimer_from_Running [OF r] show ?thesis by (cases status) simp_all
  next
    case step_finish
    with r show ?thesis by simp
  qed
next
  assume "process_step\<^sup>*\<^sup>* initial_process q"
  then have "flag_invariant q" by (rule reachable_flag_invariant)
  then show "test_timedout q = (watchdog_state_of q = TimedOut)"
    and "watchdog_state_of q = TimedOut \<Longrightarrow> exit_called q = Some 0"
    by (simp_all add: flag_invariant_def)
qed (use WatchdogTimer_from_Running process_steps_final in blast)+

theorem watchdog_one_directional_witness:
  "watchdog_state_of (SetupWatchdogTimer
      \<lparr>vk_instance = 1, context_physicalDevice = 2, devices = [], apiVersion = 4194304,
       instanceExtensions = [], instanceLayers = [], test_termination_timer_ms = 120000\<rparr>
      initial_process) = Running \<and>
   watchdog_state_of (WatchdogTimer timeout (SetupWatchdogTimer
      \<lparr>vk_instance = 1, context_physicalDevice = 2, devices = [], apiVersion = 4194304,
       instanceExtensions = [], instanceLayers = [], test_termination_timer_ms = 120000\<rparr>
      initial_process)) = TimedOut \<and>
   test_timedout (WatchdogTimer timeout (SetupWatchdogTimer
      \<lparr>vk_instance = 1, context_physicalDevice = 2, devices = [], apiVersion = 4194304,
       instanceExtensions = [], instanceLayers = [], test_termination_timer_ms = 120000\<rparr>
      initial_process)) \<and>
   exit_called (WatchdogTimer timeout (SetupWatchdogTimer
      \<lparr>vk_instance = 1, context_physicalDevice = 2, devices = [], apiVersion = 4194304,
       instanceExtensions = [], instanceLayers = [], test_termination_timer_ms = 120000\<rparr>
      initial_process)) = Some 0 \<and>
   watchdog_state_of (WaitForWatchdogThread (WatchdogTimer timeout (SetupWatchdogTimer
      \<lparr>vk_instance = 1, context_physicalDevice = 2, devices = [], apiVersion = 4194304,
       instanceExtensions = [], instanceLayers = [], test_termination_timer_ms = 120000\<rparr>
      initial_process))) = TimedOut \<and>
   watchdog_state_of (WatchdogTimer no_timeout (SetupWatchdogTimer
      \<lparr>vk_instance = 1, context_physicalDevice = 2, devices = [], apiVersion = 4194304,
       instanceExtensions = [], instanceLayers = [], test_termination_timer_ms = 120000\<rparr>
      initial_process)) = NotifiedFinished \<and>
   \<not> test_timedout (WaitForWatchdogThread (WatchdogTimer no_timeout (SetupWatchdogTimer
      \<lparr>vk_instance = 1, context_physicalDevice = 2, devices = [], apiVersion = 4194304,
       instanceExtensions = [], instanceLayers = [], test_termination_timer_ms = 120000\<rparr>
      initial_process)))"
proof -
  let ?c = "\<lparr>vk_instance = 1, context_physicalDevice = 2, devices = [], apiVersion = 4194304,
       instanceExtensions = [], instanceLayers = [], test_termination_timer_ms = 120000\<rparr>"
  let ?p = "SetupWatchdogTimer ?c initial_process"
  have r: "watchdog_state_of ?p = Running"
    by (simp add: SetupWatchdogTimer_def initial_process_def watchdog_state_of_def)
  have nf: "\<not> test_timedout ?p"
    by (simp add: SetupWatchdogTimer_def initial_process_def)
  have s0: "process_step initial_process ?p"
    by (rule process_step.step_setup)
  have w: "process_step ?p (WatchdogTimer status ?p)" for status
    by (rule process_step.step_wake [where t = "\<lparr>timer_ms = 120000, thread_state = Waiting\<rparr>"])
      (simp_all add: SetupWatchdogTimer_def initial_process_def)
  have f: "process_step\<^sup>*\<^sup>* q (WaitForWatchdogThread q)" for q
    by (rule r_into_rtranclp) (rule process_step.step_finish)
  note t = watchdog_one_directional
  from t [of ?p] r
  have a: "watchdog_state_of (WatchdogTimer timeout ?p) = TimedOut"
    "test_timedout (WatchdogTimer timeout ?p)"
    "exit_called (WatchdogTimer timeout ?p) = Some 0"
    "watchdog_state_of (WatchdogTimer no_timeout ?p) = NotifiedFinished"
    "test_timedout (WatchdogTimer no_timeout ?p) = test_timedout ?p"
    by blast+
  from t [of "WatchdogTimer timeout ?p" "WaitForWatchdogThread (WatchdogTimer timeout ?p)"] a(1) f
  have b: "watchdog_state_of (WaitForWatchdogThread (WatchdogTimer timeout ?p)) = TimedOut"
    by blast
  from t [of "WatchdogTimer no_timeout ?p" "WaitForWatchdogThread (WatchdogTimer no_timeout ?p)"] a(4) f
  have "test_timedout (WaitForWatchdogThread (WatchdogTimer no_timeout ?p)) =
        test_timedout (WatchdogTimer no_timeout ?p)"
    by blast
  with a(5) nf have c: "\<not> test_timedout (WaitForWatchdogThread (WatchdogTimer no_timeout ?p))"
    by simp
  from r a(1-4) b c show ?thesis
    by (intro conjI)
qed

lemma fold_run_exit_handler_thread:
  "watchdog_thread (fold run_exit_handler hs p) = watchdog_thread p \<and>
   threads_created (fold run_exit_handler hs p) = threads_created p"
proof (induction hs arbitrary: p)
  case Nil
  show ?case by simp
next
  case (Cons h hs)
  show ?case by (cases h) (simp add: Cons.IH)
qed

lemma WatchdogTimer_thread:
  "threads_created (WatchdogTimer status p) = threads_created p \<and>
   map_option timer_ms (watchdog_thread (WatchdogTimer status p)) =
     map_option timer_ms (watchdog_thread p)"
  by (cases status)
    (simp_all add: WatchdogTimer_def exit_process_def set_thread_state_def
      fold_run_exit_handler_thread option.map_comp comp_def)

lemma process_step_one_thread:
  assumes "process_step p q"
    and "threads_created p = 1 \<and> map_option timer_ms (watchdog_thread p) = Some T"
  shows "threads_created q = 1 \<and> map_option timer_ms (watchdog_thread q) = Some T"
  using assms
proof cases
  case (step_setup c)
  with assms(2) show ?thesis by (auto simp: SetupWatchdogTimer_def)
next
  case (step_wake t status)
  with assms(2) show ?thesis by (simp add: WatchdogTimer_thread)
next
  case step_finish
  with assms(2) show ?thesis by simp
qed

lemma process_steps_one_thread:
  assumes "process_step\<^sup>*\<^sup>* p q"
    and "threads_created p = 1 \<and> map_option timer_ms (watchdog_thread p) = Some T"
  shows "threads_created q = 1 \<and> map_option timer_ms (watchdog_thread q) = Some T"
  using assms
proof (induction rule: rtranclp_induct)
  case base
  then show ?case by simp
next
  case (step y z)
  then show ?case using process_step_one_thread [of y z T] by blast
qed

lemma fold_SetupWatchdogTimer_started:
  "watchdog_thread p \<noteq> None \<Longrightarrow> fold SetupWatchdogTimer cs p = p"
  by (induction cs) (simp_all add: SetupWatchdogTimer_started)

text \<open>
  C10. The guard is one pointer for the whole process, not one per context. Once a thread
  has been started, a call of \<open>SetupWatchdogTimer\<close> on any context changes nothing.
  Calls on any contexts \<open>c, cs\<close> in a row, from the initial state, leave the process
  as the first call alone does: one thread created, waiting with the deadline of the
  first context \<open>c\<close>. And whatever follows that first call (further calls on any
  context, the watchdog waking up, the exit handler), the number of threads created stays
  one and the thread is the one started with the deadline of \<open>c\<close>.
\<close>

theorem watchdog_guard_process_global:
  "(watchdog_thread p \<noteq> None \<longrightarrow> SetupWatchdogTimer c' p = p) \<and>
   fold SetupWatchdogTimer (c # cs) initial_process = SetupWatchdogTimer c initial_process \<and>
   threads_created (fold SetupWatchdogTimer (c # cs) initial_process) = 1 \<and>
   watchdog_thread (fold SetupWatchdogTimer (c # cs) initial_process) =
     Some \<lparr>timer_ms = test_termination_timer_ms c, thread_state = Waiting\<rparr> \<and>
   (process_step\<^sup>*\<^sup>* (SetupWatchdogTimer c initial_process) q \<longrightarrow>
      threads_created q = 1 \<and>
      (\<exists>t. watchdog_thread q = Some t \<and> timer_ms t = test_termination_timer_ms c))"
proof -
  let ?p = "SetupWatchdogTimer c initial_process"
  have p: "threads_created ?p = 1"
    "watchdog_thread ?p = Some \<lparr>timer_ms = test_termination_timer_ms c, thread_state = Waiting\<rparr>"
    by (simp_all add: SetupWatchdogTimer_def initial_process_def)
  have f: "fold SetupWatchdogTimer (c # cs) initial_process = ?p"
    by (simp add: fold_SetupWatchdogTimer_started watchdog_thread_SetupWatchdogTimer)
  have "threads_created q = 1 \<and>
      (\<exists>t. watchdog_thread q = Some t \<and> timer_ms t = test_termination_timer_ms c)"
    if "process_step\<^sup>*\<^sup>* ?p q"
    using process_steps_one_thread [OF that, of "test_termination_timer_ms c"] p
    by auto
  with p f show ?thesis
    by (simp add: SetupWatchdogTimer_started)
qed

theorem watchdog_guard_process_global_witness:
  "watchdog_thread (SetupWatchdogTimer
      \<lparr>vk_instance = 1, context_physicalDevice = 2, devices = [], apiVersion = 4194304,
       instanceExtensions = [], instanceLayers = [], test_termination_timer_ms = 5000\<rparr>
      initial_process) \<noteq> None \<and>
   SetupWatchdogTimer
      \<lparr>vk_instance = 7, context_physicalDevice = 2, devices = [], apiVersion = 4194304,
       instanceExtensions = [], instanceLayers = [], test_termination_timer_ms = 120000\<rparr>
      (SetupWatchdogTimer
        \<lparr>vk_instance = 1, context_physicalDevice = 2, devices = [], apiVersion = 4194304,
         instanceExtensions = [], instanceLayers = [], test_termination_timer_ms = 5000\<rparr>
        initial_process) =
   SetupWatchdogTimer
      \<lparr>vk_instance = 1, context_physicalDevice = 2, devices = [], apiVersion = 4194304,
       instanceExtensions = [], instanceLayers = [], test_termination_timer_ms = 5000\<rparr>
      initial_process \<and>
   threads_created (SetupWatchdogTimer
      \<lparr>vk_instance = 7, context_physicalDevice = 2, devices = [], apiVersion = 4194304,
       instanceExtensions = [], instanceLayers = [], test_termination_timer_ms = 120000\<rparr>
      (SetupWatchdogTimer
        \<lparr>vk_instance = 1, context_physicalDevice = 2, devices = [], apiVersion = 4194304,
         instanceExtensions = [], instanceLayers = [], test_termination_timer_ms = 5000\<rparr>
        initial_process)) = 1 \<and>
   (\<exists>t. watchdog_thread (SetupWatchdogTimer
      \<lparr>vk_instance = 7, context_physicalDevice = 2, devices = [], apiVersion = 4194304,
       instanceExtensions = [], instanceLayers = [], test_termination_timer_ms = 120000\<rparr>
      (SetupWatchdogTimer
        \<lparr>vk_instance = 1, context_physicalDevice = 2, devices = [], apiVersion = 4194304,
         instanceExtensions = [], instanceLayers = [], test_termination_timer_ms = 5000\<rparr>
        initial_process)) = Some t \<and> timer_ms t = 5000)"
proof -
  let ?c1 = "\<lparr>vk_instance = 1, context_physicalDevice = 2, devices = [], apiVersion = 4194304,
       instanceExtensions = [], instanceLayers = [], test_termination_timer_ms = 5000\<rparr>"
  let ?c2 = "\<lparr>vk_instance = 7, context_physicalDevice = 2, devices = [], apiVersion = 4194304,
       instanceExtensions = [], instanceLayers = [], test_termination_timer_ms = 120000\<rparr>"
  let ?p = "SetupWatchdogTimer ?c1 initial_process"
  have n: "watchdog_thread ?p \<noteq> None"
    by (simp add: SetupWatchdogTimer_def initial_process_def)
  have s: "process_step\<^sup>*\<^sup>* ?p (SetupWatchdogTimer ?c2 ?p)"
    by (rule r_into_rtranclp) (rule process_step.step_setup)
  from watchdog_guard_process_global [of ?p ?c2 ?c1 "[]" "SetupWatchdogTimer ?c2 ?p"] n s
  show ?thesis
    by simp
qed

subsection \<open>Submission descriptors\<close>

text \<open>
  C8, as amended. For every command-buffer pointer, every pair of wait-semaphore and
  wait-stage-mask sequences of equal length, every optional sequence of signal semaphores
  and every extension chain, \<open>CreateSubmitInfo\<close> returns a descriptor with
  command-buffer count 1 and the given command-buffer pointer, the wait count equal to the
  common length (cast to \<^verbatim>\<open>uint32_t\<close>), the wait pointers equal to the storage of the
  two given sequences, the signal count and pointer those of the given signal sequence
  (zero when there is none), and the given chain. The equality of the two wait counts is
  checked at run time by an \<^verbatim>\<open>assert\<close>: when the lengths differ, the call ends in the
  failed assertion and no descriptor is returned.
\<close>

theorem CreateSubmitInfo_checks_wait_counts:
  "(length (elems ws) = length (elems ms) \<longrightarrow>
      (\<exists>info. CreateSubmitInfo cb (Some ws) (Some ms) ss pn = Inr info \<and>
         commandBufferCount info = 1 \<and> pCommandBuffers info = cb \<and>
         waitSemaphoreCount info = word_of_nat (length (elems ws)) \<and>
         (length (elems ws) < 2 ^ 32 \<longrightarrow> unat (waitSemaphoreCount info) = length (elems ms)) \<and>
         pWaitSemaphores info = data ws \<and> pWaitDstStageMask info = data ms \<and>
         signalSemaphoreCount info =
           (case ss of None \<Rightarrow> 0 | Some s \<Rightarrow> word_of_nat (length (elems s))) \<and>
         pSignalSemaphores info = (case ss of None \<Rightarrow> 0 | Some s \<Rightarrow> data s) \<and>
         pNext info = pn)) \<and>
   (length (elems ws) \<noteq> length (elems ms) \<longrightarrow>
      CreateSubmitInfo cb (Some ws) (Some ms) ss pn =
        Inl (AssertionFailed ''wait_semaphores->size() == wait_dst_stage_masks->size()''))"
  by (cases ss) (simp_all add: CreateSubmitInfo_def zero_VkSubmitInfo_def unat_of_nat)

theorem CreateSubmitInfo_checks_wait_counts_witness:
  "length (elems \<lparr>data = 4096, elems = [11, 12 :: handle]\<rparr>) =
     length (elems \<lparr>data = 8192, elems = [1, 2048 :: 32 word]\<rparr>) \<and>
   (\<exists>info. CreateSubmitInfo 256 (Some \<lparr>data = 4096, elems = [11, 12]\<rparr>)
        (Some \<lparr>data = 8192, elems = [1, 2048]\<rparr>) (Some \<lparr>data = 12288, elems = [13]\<rparr>) 0 = Inr info \<and>
      commandBufferCount info = 1 \<and> pCommandBuffers info = 256 \<and>
      waitSemaphoreCount info = 2 \<and> pWaitSemaphores info = 4096 \<and>
      pWaitDstStageMask info = 8192 \<and> signalSemaphoreCount info = 1 \<and>
      pSignalSemaphores info = 12288) \<and>
   length (elems \<lparr>data = 4096, elems = [11, 12 :: handle]\<rparr>) \<noteq>
     length (elems \<lparr>data = 8192, elems = [1 :: 32 word]\<rparr>) \<and>
   CreateSubmitInfo 256 (Some \<lparr>data = 4096, elems = [11, 12]\<rparr>)
        (Some \<lparr>data = 8192, elems = [1]\<rparr>) None 0 =
     Inl (AssertionFailed ''wait_semaphores->size() == wait_dst_stage_masks->size()'')"
  using CreateSubmitInfo_checks_wait_counts
      [of "\<lparr>data = 4096, elems = [11, 12]\<rparr>" "\<lparr>data = 8192, elems = [1, 2048]\<rparr>" 256
        "Some \<lparr>data = 12288, elems = [13]\<rparr>" 0]
    CreateSubmitInfo_checks_wait_counts
      [of "\<lparr>data = 4096, elems = [11, 12]\<rparr>" "\<lparr>data = 8192, elems = [1]\<rparr>" 256 None 0]
  by simp blast

text \<open>
  The claim as stated, that the equality of the two counts is not validated at run time,
  fails: with two wait semaphores and one stage mask the call does not return a
  descriptor, it stops in the assertion.
\<close>

theorem CreateSubmitInfo_unvalidated_counterexample:
  "CreateSubmitInfo 256 (Some \<lparr>data = 4096, elems = [11, 12]\<rparr>)
        (Some \<lparr>data = 8192, elems = [1]\<rparr>) None 0 =
     Inl (AssertionFailed ''wait_semaphores->size() == wait_dst_stage_masks->size()'')"
  by (simp add: CreateSubmitInfo_def)

subsection \<open>The input and output buffers\<close>

lemma store_loop_eq:
  "store_loop v i n p m a =
     (if p \<le> a \<and> int a < int p + (n - i) then v (i + int (a - p)) else m a)"
proof (induction v i n p m rule: store_loop.induct)
  case (1 v i n p m)
  show ?case
  proof (cases "i < n")
    case False
    then have 1: "store_loop v i n p m a = m a"
      by (simp add: store_loop.simps [of v i n p m])
    have 2: "\<not> (p \<le> a \<and> int a < int p + (n - i))"
      using False by linarith
    show ?thesis
      unfolding 1 using 2 by (simp only: if_False)
  next
    case True
    have "store_loop v i n p m a = store_loop v (i + 1) n (Suc p) (m(p := v i)) a"
      using True by (simp add: store_loop.simps [of v i n p m])
    also have "\<dots> = (if Suc p \<le> a \<and> int a < int (Suc p) + (n - (i + 1))
                      then v (i + 1 + int (a - Suc p)) else (m(p := v i)) a)"
      by (rule "1.IH" [OF True])
    also have "\<dots> = (if p \<le> a \<and> int a < int p + (n - i) then v (i + int (a - p)) else m a)"
    proof (cases "a = p")
      case True
      with \<open>i < n\<close> show ?thesis by simp
    next
      case False
      then have "(Suc p \<le> a) = (p \<le> a)" by auto
      moreover have "Suc p \<le> a \<Longrightarrow> i + 1 + int (a - Suc p) = i + int (a - p)" by simp
      ultimately show ?thesis using False by auto
    qed
    finally show ?thesis .
  qed
qed

lemma VK_CHECK_RESULT_Inr:
  "(VK_CHECK_RESULT (vk drv c w) k = Inr r) =
     (\<exists>h. respond drv (trace w) c = (VK_SUCCESS, h) \<and>
          k h (w\<lparr>trace := trace w @ [(c, VK_SUCCESS, h)]\<rparr>) = Inr r)"
  by (cases "respond drv (trace w) c") (auto simp: VK_CHECK_RESULT_def vk_def)

lemma and_then_Inr: "(and_then m k = Inr r) = (\<exists>a. m = Inr a \<and> k a = Inr r)"
  by (cases m) (simp_all add: and_then_def)

lemma SetObjectDebugName_Inr:
  assumes "SetObjectDebugName drv dev h ty name w = Inr w'"
  shows "memory w' = memory w \<and>
         (\<exists>evs. trace w' = trace w @ evs \<and> filter is_memory_call (map fst evs) = [])"
  using assms
  by (cases name; cases "SetDebugUtilsObjectNameEXT dev")
    (auto simp: SetObjectDebugName_def vk_def split: if_splits)

lemma AllocateInputOutputBuffers_Inr:
  assumes "AllocateInputOutputBuffers drv dev initialization w = Inr (dev', w')"
  shows "\<exists>buffer_in buffer_out buffer_memory type_index.
    dev' = dev\<lparr>bufferIn := Some buffer_in, bufferOut := Some buffer_out,
                bufferMemory := Some buffer_memory\<rparr> \<and>
    filter is_memory_call (calls_since w w') =
      [vkAllocateMemory (device dev) (word_of_int (memorySize dev)) type_index,
       vkBindBufferMemory (device dev) buffer_in buffer_memory 0,
       vkBindBufferMemory (device dev) buffer_out buffer_memory (word_of_int (bufferSize dev))] \<and>
    memory w' =
      (if initialization \<noteq> BI_None
       then (memory w)(buffer_memory :=
              store_loop (\<lambda>i. Float32 0) 0 (numBufferEntries dev) (nat (numBufferEntries dev))
                (if initialization = BI_Default
                   then store_loop default_value 0 (numBufferEntries dev) 0 (memory w buffer_memory)
                 else if initialization = BI_MinusOne
                   then store_loop (\<lambda>i. Float32 (- 1)) 0 (numBufferEntries dev) 0
                          (memory w buffer_memory)
                 else if initialization = BI_64K
                   then store_loop (\<lambda>i. UInt32 65535) 0 (numBufferEntries dev) 0
                          (memory w buffer_memory)
                 else memory w buffer_memory))
       else memory w)"
proof (cases "initialization = BI_None")
  case True
  from True assms show ?thesis
    unfolding AllocateInputOutputBuffers_def Let_def VK_CHECK_RESULT_Inr and_then_Inr
    apply (elim conjE exE)
    apply (drule SetObjectDebugName_Inr)+
    apply (clarsimp simp: calls_since_def)
    done
next
  case False
  from False assms show ?thesis
    unfolding AllocateInputOutputBuffers_def Let_def VK_CHECK_RESULT_Inr and_then_Inr
    apply (elim conjE exE)
    apply (drule SetObjectDebugName_Inr)+
    apply (simp add: VK_CHECK_RESULT_Inr split del: if_split)
    apply (elim conjE exE)
    apply (clarsimp simp: vk_def calls_since_def split del: if_split)
    apply (simp cong: if_cong)
    done
qed

lemma example_FindMemoryType:
  "FindMemoryType [\<lparr>propertyFlags = 1, heapIndex = 0\<rparr>, \<lparr>propertyFlags = 6, heapIndex = 1\<rparr>,
     \<lparr>propertyFlags = 14, heapIndex = (1::32 word)\<rparr>] 7 6 = 1"
proof -
  let ?mts = "[\<lparr>propertyFlags = 1, heapIndex = 0\<rparr>, \<lparr>propertyFlags = 6, heapIndex = 1\<rparr>,
           \<lparr>propertyFlags = 14, heapIndex = (1::32 word)\<rparr>]"
  have "FindMemoryType_loop ?mts 7 6 0 = FindMemoryType_loop ?mts 7 6 (Suc 0)"
    by (subst FindMemoryType_loop.simps) simp
  also have "\<dots> = 1"
    by (subst FindMemoryType_loop.simps) simp
  finally show ?thesis
    by (simp add: FindMemoryType_def)
qed

lemma example_AllocateInputOutputBuffers_None:
  "AllocateInputOutputBuffers example_driver example_device BI_None example_world =
     Inr (example_device\<lparr>bufferIn := Some 1, bufferOut := Some 2, bufferMemory := Some 3\<rparr>,
          example_world\<lparr>trace :=
            [(vkCreateBuffer 10 1024 32, 0, 1), (vkCreateBuffer 10 1024 32, 0, 2),
             (vkAllocateMemory 10 2048 1, 0, 3), (vkBindBufferMemory 10 1 3 0, 0, 4),
             (vkBindBufferMemory 10 2 3 1024, 0, 5)]\<rparr>)"
  by (simp add: AllocateInputOutputBuffers_def example_driver_def example_device_def
      example_world_def VK_CHECK_RESULT_def vk_def and_then_def SetObjectDebugName_def
      VK_SUCCESS_def example_FindMemoryType VK_BUFFER_USAGE_STORAGE_BUFFER_BIT_def
      VK_MEMORY_PROPERTY_HOST_VISIBLE_BIT_def VK_MEMORY_PROPERTY_HOST_COHERENT_BIT_def)

lemma example_AllocateInputOutputBuffers_Default:
  "\<exists>w'. AllocateInputOutputBuffers example_driver example_device BI_Default example_world =
     Inr (example_device\<lparr>bufferIn := Some 1, bufferOut := Some 2, bufferMemory := Some 3\<rparr>, w')"
  by (simp add: AllocateInputOutputBuffers_def example_driver_def example_device_def
      example_world_def VK_CHECK_RESULT_def vk_def and_then_def SetObjectDebugName_def
      VK_SUCCESS_def example_FindMemoryType VK_BUFFER_USAGE_STORAGE_BUFFER_BIT_def
      VK_MEMORY_PROPERTY_HOST_VISIBLE_BIT_def VK_MEMORY_PROPERTY_HOST_COHERENT_BIT_def Let_def)

lemma zero_loop_out_half:
  assumes "k < nat n"
  shows "store_loop (\<lambda>i. Float32 0) 0 n (nat n) m (nat n + k) = Float32 0"
proof -
  from assms have "int k < n" by linarith
  then show ?thesis by (simp add: store_loop_eq)
qed

lemma zero_loop_in_half:
  assumes "i < nat n"
  shows "store_loop (\<lambda>i. Float32 0) 0 n (nat n) m i = m i"
  using assms by (simp add: store_loop_eq)

lemma in_loop_value:
  assumes "i < nat n"
  shows "store_loop v 0 n 0 m i = v (int i)"
proof -
  from assms have "int i < n" by linarith
  then show ?thesis by (simp add: store_loop_eq)
qed

lemma floorlog_2_eq:
  assumes "2 ^ n \<le> x" "x < 2 ^ Suc n"
  shows "floorlog 2 x = Suc n"
proof -
  from assms(1) have p: "0 < x"
    by (metis less_le_trans zero_less_numeral zero_less_power)
  from floorlog_bounds [of x 2] p
  have b: "2 ^ (floorlog 2 x - 1) \<le> x" "x < 2 ^ floorlog 2 x"
    by simp_all
  from b(1) assms(2) have "(2::nat) ^ (floorlog 2 x - 1) < 2 ^ Suc n"
    by (rule le_less_trans)
  then have u: "floorlog 2 x - 1 < Suc n"
    by (rule power_less_imp_less_exp [rotated]) simp
  from assms(1) b(2) have "(2::nat) ^ n < 2 ^ floorlog 2 x"
    by (rule le_less_trans)
  then have l: "n < floorlog 2 x"
    by (rule power_less_imp_less_exp [rotated]) simp
  from u l show ?thesis
    by simp
qed

lemma default_value_exact:
  assumes "i < 2 ^ 24"
  shows "default_value (int i) = Float32 (2 + 2 * real i)"
proof -
  from assms have a: "float_round i = i"
    by (simp add: float_round_def)
  have b: "float_round (2 + 2 * i) = 2 + 2 * i"
  proof (cases "2 + 2 * i < 2 ^ 24")
    case True
    then show ?thesis
      by (simp add: float_round_def)
  next
    case False
    show ?thesis
    proof (cases "2 + 2 * i = 2 ^ 25")
      case True
      have "floorlog 2 (2 + 2 * i) = Suc 25"
        by (rule floorlog_2_eq) (use True in simp_all)
      with True show ?thesis
        by (simp add: float_round_def)
    next
      case less: False
      from assms less have "2 + 2 * i < 2 ^ 25"
        by simp
      with False have "floorlog 2 (2 + 2 * i) = Suc 24"
        by (intro floorlog_2_eq) simp_all
      with False show ?thesis
        by (simp add: float_round_def)
    qed
  qed
  show ?thesis
    by (simp only: default_value_def nat_int a b) simp
qed

text \<open>
  Beyond that the sum is rounded: \<open>2 + 2 * 2^24\<close> lies halfway between two floats and
  goes to the even one.
\<close>

lemma float_round_16777216: "float_round 16777216 = 16777216"
proof -
  have "floorlog 2 16777216 = Suc 24"
    by (rule floorlog_2_eq) simp_all
  then show ?thesis
    by (simp add: float_round_def)
qed

lemma float_round_33554434: "float_round 33554434 = 33554432"
proof -
  have "floorlog 2 33554434 = Suc 25"
    by (rule floorlog_2_eq) simp_all
  then show ?thesis
    by (simp add: float_round_def)
qed

lemma default_value_rounded: "default_value 16777216 = Float32 33554432"
  by (simp add: default_value_def float_round_16777216 float_round_33554434)

text \<open>
  C3, as amended. For every call of \<open>AllocateInputOutputBuffers\<close> that returns, the
  calls that allocate or bind memory are exactly three, in this order: one allocation of
  \<^verbatim>\<open>memorySize\<close> bytes, the binding of the "in" buffer to it at offset 0 and the
  binding of the "out" buffer to the same allocation at offset \<^verbatim>\<open>bufferSize\<close> (converted
  to \<^verbatim>\<open>VkDeviceSize\<close>). For every initialisation mode other than \<^verbatim>\<open>None\<close> (Default,
  MinusOne, _64K and Transfer), on a device whose \<^verbatim>\<open>bufferSize\<close> is
  \<^verbatim>\<open>sizeof(float) * numBufferEntries\<close> (its member initialisers), each of the
  \<^verbatim>\<open>numBufferEntries\<close> cells read from that offset holds the float zero right after the
  call. With mode \<^verbatim>\<open>None\<close> the call writes nothing: the memory is as it was.
\<close>

theorem AllocateInputOutputBuffers_out_layout:
  assumes "AllocateInputOutputBuffers drv dev initialization w = Inr (dev', w')"
  shows "\<exists>buffer_in buffer_out buffer_memory type_index.
    bufferIn dev' = Some buffer_in \<and> bufferOut dev' = Some buffer_out \<and>
    bufferMemory dev' = Some buffer_memory \<and>
    filter is_memory_call (calls_since w w') =
      [vkAllocateMemory (device dev) (word_of_int (memorySize dev)) type_index,
       vkBindBufferMemory (device dev) buffer_in buffer_memory 0,
       vkBindBufferMemory (device dev) buffer_out buffer_memory (word_of_int (bufferSize dev))] \<and>
    (initialization \<noteq> BI_None \<and> bufferSize dev = 4 * numBufferEntries dev \<longrightarrow>
       (\<forall>k < nat (numBufferEntries dev).
          memory w' buffer_memory (nat (bufferSize dev) div 4 + k) = Float32 0)) \<and>
    (initialization = BI_None \<longrightarrow> memory w' = memory w)"
proof -
  from AllocateInputOutputBuffers_Inr [OF assms]
  obtain buffer_in buffer_out buffer_memory type_index where
    d: "dev' = dev\<lparr>bufferIn := Some buffer_in, bufferOut := Some buffer_out,
                bufferMemory := Some buffer_memory\<rparr>" and
    c: "filter is_memory_call (calls_since w w') =
      [vkAllocateMemory (device dev) (word_of_int (memorySize dev)) type_index,
       vkBindBufferMemory (device dev) buffer_in buffer_memory 0,
       vkBindBufferMemory (device dev) buffer_out buffer_memory (word_of_int (bufferSize dev))]" and
    m: "memory w' =
      (if initialization \<noteq> BI_None
       then (memory w)(buffer_memory :=
              store_loop (\<lambda>i. Float32 0) 0 (numBufferEntries dev) (nat (numBufferEntries dev))
                (if initialization = BI_Default
                   then store_loop default_value 0 (numBufferEntries dev) 0 (memory w buffer_memory)
                 else if initialization = BI_MinusOne
                   then store_loop (\<lambda>i. Float32 (- 1)) 0 (numBufferEntries dev) 0
                          (memory w buffer_memory)
                 else if initialization = BI_64K
                   then store_loop (\<lambda>i. UInt32 65535) 0 (numBufferEntries dev) 0
                          (memory w buffer_memory)
                 else memory w buffer_memory))
       else memory w)"
    by blast
  have z: "memory w' buffer_memory (nat (bufferSize dev) div 4 + k) = Float32 0"
    if "initialization \<noteq> BI_None" "bufferSize dev = 4 * numBufferEntries dev"
      "k < nat (numBufferEntries dev)" for k
  proof -
    have "nat (bufferSize dev) div 4 = nat (numBufferEntries dev)"
      using that(2) by simp
    with that(1,3) show ?thesis
      by (simp add: m zero_loop_out_half)
  qed
  have "bufferIn dev' = Some buffer_in" "bufferOut dev' = Some buffer_out"
    "bufferMemory dev' = Some buffer_memory"
    by (simp_all add: d)
  with c z m show ?thesis
    by (intro exI [of _ buffer_in] exI [of _ buffer_out] exI [of _ buffer_memory]
        exI [of _ type_index]) simp
qed

theorem AllocateInputOutputBuffers_out_layout_witness:
  "\<exists>w'. AllocateInputOutputBuffers example_driver example_device BI_Default example_world =
       Inr (example_device\<lparr>bufferIn := Some 1, bufferOut := Some 2, bufferMemory := Some 3\<rparr>, w') \<and>
     filter is_memory_call (calls_since example_world w') =
       [vkAllocateMemory 10 2048 1, vkBindBufferMemory 10 1 3 0, vkBindBufferMemory 10 2 3 1024] \<and>
     memory w' 3 256 = Float32 0 \<and> memory w' 3 511 = Float32 0"
proof -
  from example_AllocateInputOutputBuffers_Default obtain w' where
    r: "AllocateInputOutputBuffers example_driver example_device BI_Default example_world =
       Inr (example_device\<lparr>bufferIn := Some 1, bufferOut := Some 2, bufferMemory := Some 3\<rparr>, w')"
    by blast
  from AllocateInputOutputBuffers_out_layout [OF r]
  obtain buffer_in buffer_out buffer_memory type_index where
    a: "bufferIn (example_device\<lparr>bufferIn := Some 1, bufferOut := Some 2, bufferMemory := Some 3\<rparr>) = Some buffer_in"
      "bufferOut (example_device\<lparr>bufferIn := Some 1, bufferOut := Some 2, bufferMemory := Some 3\<rparr>) = Some buffer_out"
      "bufferMemory (example_device\<lparr>bufferIn := Some 1, bufferOut := Some 2, bufferMemory := Some 3\<rparr>) = Some buffer_memory"
    and c: "filter is_memory_call (calls_since example_world w') =
      [vkAllocateMemory (device example_device) (word_of_int (memorySize example_device)) type_index,
       vkBindBufferMemory (device example_device) buffer_in buffer_memory 0,
       vkBindBufferMemory (device example_device) buffer_out buffer_memory
         (word_of_int (bufferSize example_device))]"
    and z: "BI_Default \<noteq> BI_None \<and> bufferSize example_device = 4 * numBufferEntries example_device \<longrightarrow>
       (\<forall>k < nat (numBufferEntries example_device).
          memory w' buffer_memory (nat (bufferSize example_device) div 4 + k) = Float32 0)"
    by blast
  have h: "buffer_in = 1" "buffer_out = 2" "buffer_memory = 3"
    using a by simp_all
  have s: "device example_device = 10" "memorySize example_device = 2048"
    "bufferSize example_device = 1024" "numBufferEntries example_device = 256"
    by (simp_all add: example_device_def)
  from z have z': "\<forall>k < 256. memory w' 3 (256 + k) = Float32 0"
    by (simp add: h s)
  have t: "type_index = 1"
  proof -
    have "vkAllocateMemory 10 2048 1 \<in> set (calls_since example_world w')"
      using r
      by (simp add: AllocateInputOutputBuffers_def example_driver_def example_device_def
      example_world_def VK_CHECK_RESULT_def vk_def and_then_def SetObjectDebugName_def
      VK_SUCCESS_def example_FindMemoryType VK_BUFFER_USAGE_STORAGE_BUFFER_BIT_def
      VK_MEMORY_PROPERTY_HOST_VISIBLE_BIT_def VK_MEMORY_PROPERTY_HOST_COHERENT_BIT_def Let_def
      calls_since_def) auto
    then have "vkAllocateMemory 10 2048 1 \<in> set (filter is_memory_call (calls_since example_world w'))"
      by simp
    then show ?thesis
      unfolding c by (simp add: s)
  qed
  have "(0::nat) < 256" "(255::nat) < 256"
    by simp_all
  with z' have "memory w' 3 (256 + 0) = Float32 0" "memory w' 3 (256 + 255) = Float32 0"
    by blast+
  then have "memory w' 3 256 = Float32 0" "memory w' 3 511 = Float32 0"
    by simp_all
  with r c show ?thesis
    by (intro exI [of _ w']) (simp add: h s t)
qed

text \<open>
  The claim as stated covers every initialisation mode. With \<^verbatim>\<open>None\<close> it fails: on the
  concrete device (256 entries, \<^verbatim>\<open>bufferSize\<close> 1024) the call returns, the "out" buffer
  is bound at offset 1024, and cell 256 of the allocation, the first element at that
  offset, still holds the pattern that the memory held before, not zero.
\<close>

theorem AllocateInputOutputBuffers_None_counterexample:
  "AllocateInputOutputBuffers example_driver example_device BI_None example_world =
     Inr (example_device\<lparr>bufferIn := Some 1, bufferOut := Some 2, bufferMemory := Some 3\<rparr>,
          example_world\<lparr>trace :=
            [(vkCreateBuffer 10 1024 32, 0, 1), (vkCreateBuffer 10 1024 32, 0, 2),
             (vkAllocateMemory 10 2048 1, 0, 3), (vkBindBufferMemory 10 1 3 0, 0, 4),
             (vkBindBufferMemory 10 2 3 1024, 0, 5)]\<rparr>) \<and>
   numBufferEntries example_device = 256 \<and>
   memory (example_world\<lparr>trace :=
            [(vkCreateBuffer 10 1024 32, 0, 1), (vkCreateBuffer 10 1024 32, 0, 2),
             (vkAllocateMemory 10 2048 1, 0, 3), (vkBindBufferMemory 10 1 3 0, 0, 4),
             (vkBindBufferMemory 10 2 3 1024, 0, 5)]\<rparr>) 3 (1024 div 4) = UInt32 3735928559 \<and>
   UInt32 3735928559 \<noteq> Float32 0 \<and> UInt32 3735928559 \<noteq> UInt32 0"
  by (simp add: example_AllocateInputOutputBuffers_None)
    (simp add: example_device_def example_world_def)

text \<open>
  C9, as amended. For every call of \<open>AllocateInputOutputBuffers\<close> that returns with a
  mode other than \<^verbatim>\<open>None\<close>, the first \<^verbatim>\<open>numBufferEntries\<close> cells of the allocation, the
  input half, hold after the call: with Default, on a device of at most \<open>2^24\<close> entries,
  the float \<open>2 + 2 * i\<close> at each index \<open>i\<close> (every such value is exactly a \<^verbatim>\<open>float\<close>;
  the struct has 256 entries); with MinusOne the float \<open>-1\<close>; with _64K the unsigned
  value 65535. With Transfer, the remaining mode, the input half is left as it was.
\<close>

theorem AllocateInputOutputBuffers_input_values:
  assumes "AllocateInputOutputBuffers drv dev initialization w = Inr (dev', w')"
    and "initialization \<noteq> BI_None"
  shows "\<exists>buffer_memory. bufferMemory dev' = Some buffer_memory \<and>
    (initialization = BI_Default \<and> numBufferEntries dev \<le> 2 ^ 24 \<longrightarrow>
       (\<forall>i < nat (numBufferEntries dev).
          memory w' buffer_memory i = Float32 (2 + 2 * real i))) \<and>
    (initialization = BI_MinusOne \<longrightarrow>
       (\<forall>i < nat (numBufferEntries dev). memory w' buffer_memory i = Float32 (- 1))) \<and>
    (initialization = BI_64K \<longrightarrow>
       (\<forall>i < nat (numBufferEntries dev). memory w' buffer_memory i = UInt32 65535)) \<and>
    (initialization = BI_Transfer \<longrightarrow>
       (\<forall>i < nat (numBufferEntries dev). memory w' buffer_memory i = memory w buffer_memory i))"
proof -
  from AllocateInputOutputBuffers_Inr [OF assms(1)]
  obtain buffer_in buffer_out buffer_memory where
    d: "dev' = dev\<lparr>bufferIn := Some buffer_in, bufferOut := Some buffer_out,
                bufferMemory := Some buffer_memory\<rparr>" and
    m: "memory w' =
      (if initialization \<noteq> BI_None
       then (memory w)(buffer_memory :=
              store_loop (\<lambda>i. Float32 0) 0 (numBufferEntries dev) (nat (numBufferEntries dev))
                (if initialization = BI_Default
                   then store_loop default_value 0 (numBufferEntries dev) 0 (memory w buffer_memory)
                 else if initialization = BI_MinusOne
                   then store_loop (\<lambda>i. Float32 (- 1)) 0 (numBufferEntries dev) 0
                          (memory w buffer_memory)
                 else if initialization = BI_64K
                   then store_loop (\<lambda>i. UInt32 65535) 0 (numBufferEntries dev) 0
                          (memory w buffer_memory)
                 else memory w buffer_memory))
       else memory w)"
    by blast
  have "memory w' buffer_memory i = Float32 (2 + 2 * real i)"
    if "initialization = BI_Default" "numBufferEntries dev \<le> 2 ^ 24"
      "i < nat (numBufferEntries dev)" for i
  proof -
    have "i < 2 ^ 24" using that(2,3) by simp
    with that(1,3) show ?thesis
      by (simp add: m zero_loop_in_half in_loop_value default_value_exact)
  qed
  moreover have "memory w' buffer_memory i = Float32 (- 1)"
    if "initialization = BI_MinusOne" "i < nat (numBufferEntries dev)" for i
    using that by (simp add: m zero_loop_in_half in_loop_value)
  moreover have "memory w' buffer_memory i = UInt32 65535"
    if "initialization = BI_64K" "i < nat (numBufferEntries dev)" for i
    using that by (simp add: m zero_loop_in_half in_loop_value)
  moreover have "memory w' buffer_memory i = memory w buffer_memory i"
    if "initialization = BI_Transfer" "i < nat (numBufferEntries dev)" for i
    using that by (simp add: m zero_loop_in_half)
  moreover have "bufferMemory dev' = Some buffer_memory"
    by (simp add: d)
  ultimately show ?thesis
    by (intro exI [of _ buffer_memory]) simp
qed

lemma example_AllocateInputOutputBuffers_64K:
  "\<exists>w'. AllocateInputOutputBuffers example_driver example_device BI_64K example_world =
     Inr (example_device\<lparr>bufferIn := Some 1, bufferOut := Some 2, bufferMemory := Some 3\<rparr>, w')"
  by (simp add: AllocateInputOutputBuffers_def example_driver_def example_device_def
      example_world_def VK_CHECK_RESULT_def vk_def and_then_def SetObjectDebugName_def
      VK_SUCCESS_def example_FindMemoryType VK_BUFFER_USAGE_STORAGE_BUFFER_BIT_def
      VK_MEMORY_PROPERTY_HOST_VISIBLE_BIT_def VK_MEMORY_PROPERTY_HOST_COHERENT_BIT_def Let_def)

theorem AllocateInputOutputBuffers_input_values_witness:
  "(\<exists>w'. AllocateInputOutputBuffers example_driver example_device BI_Default example_world =
       Inr (example_device\<lparr>bufferIn := Some 1, bufferOut := Some 2, bufferMemory := Some 3\<rparr>, w') \<and>
     memory w' 3 0 = Float32 2 \<and> memory w' 3 1 = Float32 4 \<and> memory w' 3 255 = Float32 512) \<and>
   (\<exists>w'. AllocateInputOutputBuffers example_driver example_device BI_64K example_world =
       Inr (example_device\<lparr>bufferIn := Some 1, bufferOut := Some 2, bufferMemory := Some 3\<rparr>, w') \<and>
     memory w' 3 0 = UInt32 65535 \<and> memory w' 3 255 = UInt32 65535)"
proof -
  let ?d = "example_device\<lparr>bufferIn := Some 1, bufferOut := Some 2, bufferMemory := Some 3\<rparr>"
  have n: "numBufferEntries example_device = 256"
    by (simp add: example_device_def)
  have i: "(0::nat) < 256" "(1::nat) < 256" "(255::nat) < 256"
    by simp_all
  from example_AllocateInputOutputBuffers_Default obtain w1 where
    r1: "AllocateInputOutputBuffers example_driver example_device BI_Default example_world =
           Inr (?d, w1)"
    by blast
  from AllocateInputOutputBuffers_input_values [OF r1] n
  have "\<forall>i < 256. memory w1 3 i = Float32 (2 + 2 * real i)"
    by simp
  with i have "memory w1 3 0 = Float32 (2 + 2 * real 0)" "memory w1 3 1 = Float32 (2 + 2 * real 1)"
    "memory w1 3 255 = Float32 (2 + 2 * real 255)"
    by blast+
  then have v1: "memory w1 3 0 = Float32 2" "memory w1 3 1 = Float32 4"
    "memory w1 3 255 = Float32 512"
    by simp_all
  from example_AllocateInputOutputBuffers_64K obtain w2 where
    r2: "AllocateInputOutputBuffers example_driver example_device BI_64K example_world =
           Inr (?d, w2)"
    by blast
  from AllocateInputOutputBuffers_input_values [OF r2] n
  have "\<forall>i < 256. memory w2 3 i = UInt32 65535"
    by simp
  with i have v2: "memory w2 3 0 = UInt32 65535" "memory w2 3 255 = UInt32 65535"
    by blast+
  from r1 v1 r2 v2 show ?thesis
    by blast
qed

text \<open>
  Without the bound the Default values are not all \<open>2 + 2 * i\<close>: on the device with
  \<open>2^24 + 1\<close> entries the call returns, and the cell at index \<open>2^24\<close>, the last of the
  input half, holds 33554432 where \<open>2 + 2 * i\<close> is 33554434.
\<close>

lemma example_AllocateInputOutputBuffers_large:
  "AllocateInputOutputBuffers example_driver large_device BI_Default example_world =
     Inr (large_device\<lparr>bufferIn := Some 1, bufferOut := Some 2, bufferMemory := Some 3\<rparr>,
          example_world\<lparr>trace :=
            [(vkCreateBuffer 10 67108868 32, 0, 1), (vkCreateBuffer 10 67108868 32, 0, 2),
             (vkAllocateMemory 10 134217736 1, 0, 3), (vkBindBufferMemory 10 1 3 0, 0, 4),
             (vkBindBufferMemory 10 2 3 67108868, 0, 5),
             (vkMapMemory 10 3 0 VK_WHOLE_SIZE, 0, 6), (vkUnmapMemory 10 3, 0, 7)],
            memory := (memory example_world)
              (3 := store_loop (\<lambda>i. Float32 0) 0 16777217 16777217
                      (store_loop default_value 0 16777217 0 (memory example_world 3)))\<rparr>)"
  by (simp add: AllocateInputOutputBuffers_def example_driver_def example_device_def
      large_device_def example_world_def VK_CHECK_RESULT_def vk_def and_then_def
      SetObjectDebugName_def VK_SUCCESS_def example_FindMemoryType
      VK_BUFFER_USAGE_STORAGE_BUFFER_BIT_def VK_MEMORY_PROPERTY_HOST_VISIBLE_BIT_def
      VK_MEMORY_PROPERTY_HOST_COHERENT_BIT_def Let_def)

theorem AllocateInputOutputBuffers_Default_counterexample:
  "AllocateInputOutputBuffers example_driver large_device BI_Default example_world =
     Inr (large_device\<lparr>bufferIn := Some 1, bufferOut := Some 2, bufferMemory := Some 3\<rparr>,
          example_world\<lparr>trace :=
            [(vkCreateBuffer 10 67108868 32, 0, 1), (vkCreateBuffer 10 67108868 32, 0, 2),
             (vkAllocateMemory 10 134217736 1, 0, 3), (vkBindBufferMemory 10 1 3 0, 0, 4),
             (vkBindBufferMemory 10 2 3 67108868, 0, 5),
             (vkMapMemory 10 3 0 VK_WHOLE_SIZE, 0, 6), (vkUnmapMemory 10 3, 0, 7)],
            memory := (memory example_world)
              (3 := store_loop (\<lambda>i. Float32 0) 0 16777217 16777217
                      (store_loop default_value 0 16777217 0 (memory example_world 3)))\<rparr>) \<and>
   numBufferEntries large_device = 16777217 \<and>
   memory (example_world\<lparr>memory := (memory example_world)
              (3 := store_loop (\<lambda>i. Float32 0) 0 16777217 16777217
                      (store_loop default_value 0 16777217 0 (memory example_world 3)))\<rparr>)
     3 16777216 = Float32 33554432 \<and>
   Float32 33554432 \<noteq> Float32 (2 + 2 * real (16777216 :: nat))"
proof -
  have i: "(16777216::nat) < nat 16777217"
    by simp
  have "store_loop (\<lambda>i. Float32 0) 0 16777217 16777217
          (store_loop default_value 0 16777217 0 (memory example_world 3)) 16777216 =
        Float32 33554432"
    using zero_loop_in_half [OF i] in_loop_value [OF i, of default_value]
      default_value_rounded
    by simp
  then show ?thesis
    by (simp add: example_AllocateInputOutputBuffers_large) (simp add: large_device_def)
qed

subsection \<open>The crash-check protocol\<close>

text \<open>
  Each step of \<^verbatim>\<open>RunWithCrashCheck\<close> returns exactly when its parts do; the run is then
  followed phase by phase, for any rest \<open>K\<close> of the function.
\<close>

lemma GetSingleDevice_Inr: "(GetSingleDevice ctx = Inr d) = (devices ctx = [d])"
  by (cases "devices ctx"; cases "tl (devices ctx)") (auto simp: GetSingleDevice_def)

lemma read_member_Inr: "(read_member m k = Inr r) = (\<exists>v. m = Some v \<and> k v = Inr r)"
  by (cases m) (simp_all add: read_member_def)

lemma device_pointer_after_Inr:
  "(device_pointer_after ctx = Inr d) = (\<exists>ds. devices ctx = d # ds)"
  by (cases "devices ctx") (auto simp: device_pointer_after_def)

lemma VK_RETURN_IF_FAIL_Inr:
  "(VK_RETURN_IF_FAIL (vk drv c w) ctx k = Inr r) =
     ((\<exists>res h. respond drv (trace w) c = (res, h) \<and> res \<noteq> VK_SUCCESS \<and>
         r = (res, ctx, w\<lparr>trace := trace w @ [(c, res, h)]\<rparr>)) \<or>
      (\<exists>h. respond drv (trace w) c = (VK_SUCCESS, h) \<and>
         k h (w\<lparr>trace := trace w @ [(c, VK_SUCCESS, h)]\<rparr>) = Inr r))"
  by (cases "respond drv (trace w) c") (auto simp: VK_RETURN_IF_FAIL_def vk_def)

lemma CreateSubmitInfo_plain:
  "CreateSubmitInfo a None None None 0 =
     Inr (zero_VkSubmitInfo\<lparr>sType := VK_STRUCTURE_TYPE_SUBMIT_INFO, commandBufferCount := 1,
            pCommandBuffers := a\<rparr>)"
  by (simp add: CreateSubmitInfo_def zero_VkSubmitInfo_def)

lemma answered_append:
  "answered drv tr (xs @ ys) = (answered drv tr xs \<and> answered drv (tr @ xs) ys)"
  by (induction xs arbitrary: tr) auto

lemma SetObjectDebugName_Inr_events:
  "(SetObjectDebugName drv dev h ty (Some n) w = Inr w') =
     (SetDebugUtilsObjectNameEXT dev \<noteq> DriverSetDebugUtilsObjectNameEXT 0 \<and>
      (\<exists>names. map fst names = debug_name_calls dev h ty n \<and> answered drv (trace w) names \<and>
         w' = w\<lparr>trace := trace w @ names\<rparr>))"
proof (cases "SetDebugUtilsObjectNameEXT dev")
  case DummySetDebugUtilsObjectNameEXT
  then show ?thesis
    by (auto simp: SetObjectDebugName_def debug_name_calls_def)
next
  case (DriverSetDebugUtilsObjectNameEXT fp)
  show ?thesis
  proof (cases "fp = 0")
    case True
    with DriverSetDebugUtilsObjectNameEXT show ?thesis
      by (simp add: SetObjectDebugName_def)
  next
    case False
    have "(\<exists>names. map fst names = [c] \<and> answered drv (trace w) names \<and>
             w' = w\<lparr>trace := trace w @ names\<rparr>) =
          (w' = w\<lparr>trace := trace w @ [(c, respond drv (trace w) c)]\<rparr>)" for c
    proof
      assume "\<exists>names. map fst names = [c] \<and> answered drv (trace w) names \<and>
             w' = w\<lparr>trace := trace w @ names\<rparr>"
      then obtain names where n: "map fst names = [c]" "answered drv (trace w) names"
        "w' = w\<lparr>trace := trace w @ names\<rparr>"
        by (elim exE conjE)
      from n(1) obtain r where "names = [(c, r)]"
        by (cases names) auto
      with n(2,3) show "w' = w\<lparr>trace := trace w @ [(c, respond drv (trace w) c)]\<rparr>"
        by auto
    next
      assume "w' = w\<lparr>trace := trace w @ [(c, respond drv (trace w) c)]\<rparr>"
      then show "\<exists>names. map fst names = [c] \<and> answered drv (trace w) names \<and>
             w' = w\<lparr>trace := trace w @ names\<rparr>"
        by (intro exI [of _ "[(c, respond drv (trace w) c)]"]) simp
    qed
    with False DriverSetDebugUtilsObjectNameEXT show ?thesis
      by (auto simp: SetObjectDebugName_def debug_name_calls_def vk_def)
  qed
qed

lemma final_idle:
  "((case vk drv c w of ((res, _), w') \<Rightarrow> Inr (res, ctx, w')) = Inr r) =
     (\<exists>res h. respond drv (trace w) c = (res, h) \<and>
        r = (res, ctx, w\<lparr>trace := trace w @ [(c, res, h)]\<rparr>))"
  by (cases "respond drv (trace w) c") (auto simp: vk_def)

lemma phase_allocate:
  assumes "and_then (GetSingleDevice ctx) (\<lambda>dev. read_member (commandPool dev) (\<lambda>pool.
     VK_RETURN_IF_FAIL
       (vk drv (vkAllocateCommandBuffers (device dev) pool VK_COMMAND_BUFFER_LEVEL_PRIMARY 1) w)
       ctx (\<lambda>cb w1.
     and_then (SetObjectDebugName drv dev cb VK_OBJECT_TYPE_COMMAND_BUFFER
                 (Some ''Hang/crash detection CommandBuffer'') w1) (K dev cb)))) =
     Inr (res, ctx', w')"
  shows "crash_check_outcome drv cb_address ctx f w res ctx' w' \<or>
         (\<exists>dev cb evs w2. sentinel_allocated drv ctx w dev cb evs \<and>
            trace w2 = trace w @ evs \<and> memory w2 = memory w \<and>
            K dev cb w2 = Inr (res, ctx', w'))"
  using assms
  unfolding and_then_Inr read_member_Inr GetSingleDevice_Inr VK_RETURN_IF_FAIL_Inr
    SetObjectDebugName_Inr_events
proof (elim disjE exE conjE, goal_cases)
  case (1 dev pool r h)
  have "crash_check_outcome drv cb_address ctx f w r ctx w'"
    by (rule crash_check_outcome.allocation_failed [where dev = dev and pool = pool and h = h])
      (use 1 in auto)
  with 1 show ?case by simp
next
  case (2 dev pool cb w2 names)
  have "sentinel_allocated drv ctx w dev cb
          ((vkAllocateCommandBuffers (device dev) pool VK_COMMAND_BUFFER_LEVEL_PRIMARY 1,
              VK_SUCCESS, cb) # names)"
    unfolding sentinel_allocated_def using 2
    by (intro exI [of _ pool] exI [of _ names]) simp
  with 2 show ?case
    by (intro disjI2 exI [of _ dev] exI [of _ cb] exI [of _ w2]
        exI [of _ "(vkAllocateCommandBuffers (device dev) pool VK_COMMAND_BUFFER_LEVEL_PRIMARY 1,
              VK_SUCCESS, cb) # names"]) simp
qed

lemma phase_record:
  assumes a: "sentinel_allocated drv ctx w dev cb evs"
    and t: "trace w2 = trace w @ evs" and m: "memory w2 = memory w"
    and run: "VK_RETURN_IF_FAIL
       (vk drv (vkBeginCommandBuffer cb VK_COMMAND_BUFFER_USAGE_ONE_TIME_SUBMIT_BIT) w2)
       ctx (\<lambda>_ w3.
     VK_RETURN_IF_FAIL (vk drv (vkEndCommandBuffer cb) w3) ctx (\<lambda>_ w4.
     VK_RETURN_IF_FAIL (vk drv (vkCreateFence (device dev)) w4) ctx (\<lambda>fence w5.
     and_then (SetObjectDebugName drv dev fence VK_OBJECT_TYPE_FENCE
                 (Some ''Hang/crash detection Fence'') w5) (K fence)))) =
     Inr (res, ctx', w')"
  shows "crash_check_outcome drv cb_address ctx f w res ctx' w' \<or>
         (\<exists>fence w6. sentinel_armed drv ctx w cb fence w6 \<and> K fence w6 = Inr (res, ctx', w'))"
  using run
  unfolding and_then_Inr VK_RETURN_IF_FAIL_Inr SetObjectDebugName_Inr_events
proof (elim disjE exE conjE, goal_cases)
  case (1 r h)
  have "crash_check_outcome drv cb_address ctx f w r ctx w'"
    by (rule crash_check_outcome.begin_failed [where h = h, OF a refl])
      (use 1 t m in auto)
  with 1 show ?case by simp
next
  case (2 h1 r h)
  have "crash_check_outcome drv cb_address ctx f w r ctx w'"
    by (rule crash_check_outcome.end_failed [where hb = h1 and h = h, OF a refl])
      (use 2 t m in auto)
  with 2 show ?case by simp
next
  case (3 h1 h2 r h)
  have "crash_check_outcome drv cb_address ctx f w r ctx w'"
    by (rule crash_check_outcome.fence_failed [where hb = h1 and he = h2 and h = h, OF a refl])
      (use 3 t m in auto)
  with 3 show ?case by simp
next
  case (4 h1 h2 fence w6 names)
  have "sentinel_armed drv ctx w cb fence w6"
    unfolding sentinel_armed_def
    by (intro exI [of _ dev] exI [of _ evs] exI [of _ h1] exI [of _ h2] exI [of _ names])
      (use 4 a t m in \<open>auto simp: answered_append\<close>)
  with 4 show ?case by blast
qed

lemma phase_submit:
  assumes a: "sentinel_armed drv ctx w cb fence wa"
    and run: "and_then (f ctx wa) (\<lambda>(ctx', w7).
     and_then (device_pointer_after ctx') (\<lambda>dev'.
     read_member (queue dev') (\<lambda>q.
     VK_RETURN_IF_FAIL (vk drv (vkQueueWaitIdle q) w7) ctx' (\<lambda>_ w8.
     and_then (CreateSubmitInfo cb_address None None None 0) (\<lambda>submit_info.
     VK_RETURN_IF_FAIL (vk drv (vkQueueSubmit q submit_info [cb] fence) w8) ctx'
       (\<lambda>_ w9. K ctx' dev' q w9)))))) = Inr (res, ctx'', w')"
  shows "crash_check_outcome drv cb_address ctx f w res ctx'' w' \<or>
         (\<exists>ctx' wp dev' q evs w9.
            sentinel_submitted drv cb_address ctx f w ctx' wp dev' q fence evs \<and>
            trace w9 = trace wp @ evs \<and> memory w9 = memory wp \<and>
            K ctx' dev' q w9 = Inr (res, ctx'', w'))"
  using run
  unfolding and_then_Inr read_member_Inr VK_RETURN_IF_FAIL_Inr device_pointer_after_Inr
    CreateSubmitInfo_plain split_paired_Ex case_prod_conv sum.inject
proof (elim disjE exE conjE, goal_cases)
  case (1 ctx1 wp dev' ds q r h)
  have "crash_check_outcome drv cb_address ctx f w r ctx1 w'"
    by (rule crash_check_outcome.idle_failed
        [where h = h and dev' = dev' and ds = ds and q = q and wp = wp, OF a])
      (use 1 in auto)
  with 1 show ?case by simp
next
  case (2 ctx1 wp dev' ds q hi si r h)
  have "crash_check_outcome drv cb_address ctx f w r ctx1 w'"
    by (rule crash_check_outcome.submit_failed
        [where h = h and hi = hi and dev' = dev' and ds = ds and q = q and wp = wp, OF a _ _ _ refl])
      (use 2 in auto)
  with 2 show ?case by simp
next
  case (3 ctx1 wp dev' ds q hi si hs)
  let ?evs = "[(vkQueueWaitIdle q, VK_SUCCESS, hi),
               (vkQueueSubmit q
                  (zero_VkSubmitInfo\<lparr>sType := VK_STRUCTURE_TYPE_SUBMIT_INFO,
                     commandBufferCount := 1, pCommandBuffers := cb_address\<rparr>)
                  [cb] fence, VK_SUCCESS, hs)]"
  have "sentinel_submitted drv cb_address ctx f w ctx1 wp dev' q fence ?evs"
    unfolding sentinel_submitted_def
    by (intro exI [of _ cb] exI [of _ wa] exI [of _ ds] exI [of _ hi] exI [of _ hs])
      (use 3 a in auto)
  with 3 show ?case
    by (intro disjI2 exI [of _ ctx1] exI [of _ wp] exI [of _ dev'] exI [of _ q]
        exI [of _ ?evs] exI [of _ "wp\<lparr>trace := trace wp @ ?evs\<rparr>"]) auto
qed

lemma phase_wait:
  assumes a: "sentinel_submitted drv cb_address ctx f w ctx1 wp dev' q fence evs"
    and t: "trace w9 = trace wp @ evs" and m: "memory w9 = memory wp"
    and run: "VK_RETURN_IF_FAIL
       (vk drv (vkWaitForFences (device dev') [fence] True kFenceTimeout) w9) ctx1 (\<lambda>_ w10.
     case vk drv (vkQueueWaitIdle q) w10 of
       ((res, _), w11) \<Rightarrow> Inr (res, ctx1, w11)) = Inr (res, ctx'', w')"
  shows "crash_check_outcome drv cb_address ctx f w res ctx'' w'"
  using run
  unfolding VK_RETURN_IF_FAIL_Inr final_idle
proof (elim disjE exE conjE, goal_cases)
  case (1 r h)
  have "crash_check_outcome drv cb_address ctx f w r ctx1 w'"
    by (rule crash_check_outcome.fence_wait_failed [where h = h, OF a])
      (use 1 t m in \<open>auto simp: kFenceTimeout_def\<close>)
  with 1 show ?case by simp
next
  case (2 hw r h)
  have "crash_check_outcome drv cb_address ctx f w r ctx1 w'"
    by (rule crash_check_outcome.fence_wait_succeeded [where h = h and hw = hw, OF a refl])
      (use 2 t m in \<open>auto simp: kFenceTimeout_def\<close>)
  with 2 show ?case by simp
qed

lemma RunWithCrashCheck_outcome:
  assumes "RunWithCrashCheck drv cb_address ctx f w = Inr (res, ctx', w')"
  shows "crash_check_outcome drv cb_address ctx f w res ctx' w'"
proof -
  note run = assms [unfolded RunWithCrashCheck_def]
  from phase_allocate [OF run, of cb_address f]
  show ?thesis
  proof (elim disjE exE conjE)
    fix dev cb evs and w2 :: world
    assume a: "sentinel_allocated drv ctx w dev cb evs" "trace w2 = trace w @ evs"
      "memory w2 = memory w"
    assume r2: "VK_RETURN_IF_FAIL
       (vk drv (vkBeginCommandBuffer cb VK_COMMAND_BUFFER_USAGE_ONE_TIME_SUBMIT_BIT) w2)
       ctx (\<lambda>_ w3.
     VK_RETURN_IF_FAIL (vk drv (vkEndCommandBuffer cb) w3) ctx (\<lambda>_ w4.
     VK_RETURN_IF_FAIL (vk drv (vkCreateFence (device dev)) w4) ctx (\<lambda>fence w5.
     and_then (SetObjectDebugName drv dev fence VK_OBJECT_TYPE_FENCE
                 (Some ''Hang/crash detection Fence'') w5) (\<lambda>w6.
     and_then (f ctx w6) (\<lambda>(ctx', w7).
     and_then (device_pointer_after ctx') (\<lambda>dev'.
     read_member (queue dev') (\<lambda>q.
     VK_RETURN_IF_FAIL (vk drv (vkQueueWaitIdle q) w7) ctx' (\<lambda>_ w8.
     and_then (CreateSubmitInfo cb_address None None None 0) (\<lambda>submit_info.
     VK_RETURN_IF_FAIL (vk drv (vkQueueSubmit q submit_info [cb] fence) w8) ctx' (\<lambda>_ w9.
     VK_RETURN_IF_FAIL
       (vk drv (vkWaitForFences (device dev') [fence] True kFenceTimeout) w9) ctx' (\<lambda>_ w10.
     case vk drv (vkQueueWaitIdle q) w10 of
       ((res, _), w11) \<Rightarrow> Inr (res, ctx', w11)))))))))))) = Inr (res, ctx', w')"
    from phase_record [OF a r2, of cb_address f]
    show ?thesis
    proof (elim disjE exE conjE)
      fix fence and wa :: world
      assume b: "sentinel_armed drv ctx w cb fence wa"
      assume r3: "and_then (f ctx wa) (\<lambda>(ctx', w7).
         and_then (device_pointer_after ctx') (\<lambda>dev'.
         read_member (queue dev') (\<lambda>q.
         VK_RETURN_IF_FAIL (vk drv (vkQueueWaitIdle q) w7) ctx' (\<lambda>_ w8.
         and_then (CreateSubmitInfo cb_address None None None 0) (\<lambda>submit_info.
         VK_RETURN_IF_FAIL (vk drv (vkQueueSubmit q submit_info [cb] fence) w8) ctx' (\<lambda>_ w9.
         VK_RETURN_IF_FAIL
           (vk drv (vkWaitForFences (device dev') [fence] True kFenceTimeout) w9) ctx' (\<lambda>_ w10.
         case vk drv (vkQueueWaitIdle q) w10 of
           ((res, _), w11) \<Rightarrow> Inr (res, ctx', w11)))))))) = Inr (res, ctx', w')"
      from phase_submit [where f = f, OF b r3]
      show ?thesis
      proof (elim disjE exE conjE)
        fix ctx1 dev' q evs and wp w9 :: world
        assume c: "sentinel_submitted drv cb_address ctx f w ctx1 wp dev' q fence evs"
          "trace w9 = trace wp @ evs" "memory w9 = memory wp"
        assume r4: "VK_RETURN_IF_FAIL
           (vk drv (vkWaitForFences (device dev') [fence] True kFenceTimeout) w9) ctx1 (\<lambda>_ w10.
         case vk drv (vkQueueWaitIdle q) w10 of
           ((res, _), w11) \<Rightarrow> Inr (res, ctx1, w11)) = Inr (res, ctx', w')"
        from phase_wait [OF c r4] show ?thesis .
      qed
    qed
  qed
qed

lemma world_upd:
  "trace w' = t \<Longrightarrow> memory w' = memory w \<Longrightarrow> w' = (w :: world)\<lparr>trace := t\<rparr>"
  by (cases w; cases w') simp

lemma VK_RETURN_IF_FAIL_failure:
  "respond drv (trace w) c = (res, h) \<Longrightarrow> res \<noteq> VK_SUCCESS \<Longrightarrow>
   VK_RETURN_IF_FAIL (vk drv c w) ctx k = Inr (res, ctx, w\<lparr>trace := trace w @ [(c, res, h)]\<rparr>)"
  by (simp add: VK_RETURN_IF_FAIL_def vk_def)

lemma VK_RETURN_IF_FAIL_success:
  "respond drv (trace w) c = (VK_SUCCESS, h) \<Longrightarrow>
   VK_RETURN_IF_FAIL (vk drv c w) ctx k = k h (w\<lparr>trace := trace w @ [(c, VK_SUCCESS, h)]\<rparr>)"
  by (simp add: VK_RETURN_IF_FAIL_def vk_def)

lemma SetObjectDebugName_names:
  "SetDebugUtilsObjectNameEXT dev \<noteq> DriverSetDebugUtilsObjectNameEXT 0 \<Longrightarrow>
   map fst names = debug_name_calls dev h ty n \<Longrightarrow> answered drv (trace w) names \<Longrightarrow>
   SetObjectDebugName drv dev h ty (Some n) w = Inr (w\<lparr>trace := trace w @ names\<rparr>)"
  unfolding SetObjectDebugName_Inr_events by blast

lemma run_allocated:
  assumes "sentinel_allocated drv ctx w dev cb evs"
  shows "RunWithCrashCheck drv cb_address ctx f w =
     VK_RETURN_IF_FAIL
       (vk drv (vkBeginCommandBuffer cb VK_COMMAND_BUFFER_USAGE_ONE_TIME_SUBMIT_BIT)
          (w\<lparr>trace := trace w @ evs\<rparr>))
       ctx (\<lambda>_ w3.
     VK_RETURN_IF_FAIL (vk drv (vkEndCommandBuffer cb) w3) ctx (\<lambda>_ w4.
     VK_RETURN_IF_FAIL (vk drv (vkCreateFence (device dev)) w4) ctx (\<lambda>fence w5.
     and_then (SetObjectDebugName drv dev fence VK_OBJECT_TYPE_FENCE
                 (Some ''Hang/crash detection Fence'') w5) (\<lambda>w6.
     and_then (f ctx w6) (\<lambda>(ctx', w7).
     and_then (device_pointer_after ctx') (\<lambda>dev'.
     read_member (queue dev') (\<lambda>q.
     VK_RETURN_IF_FAIL (vk drv (vkQueueWaitIdle q) w7) ctx' (\<lambda>_ w8.
     and_then (CreateSubmitInfo cb_address None None None 0) (\<lambda>submit_info.
     VK_RETURN_IF_FAIL (vk drv (vkQueueSubmit q submit_info [cb] fence) w8) ctx' (\<lambda>_ w9.
     VK_RETURN_IF_FAIL
       (vk drv (vkWaitForFences (device dev') [fence] True kFenceTimeout) w9) ctx' (\<lambda>_ w10.
     case vk drv (vkQueueWaitIdle q) w10 of
       ((res, _), w11) \<Rightarrow> Inr (res, ctx', w11))))))))))))"
proof -
  from assms obtain pool names where
    d: "devices ctx = [dev]" and p: "commandPool dev = Some pool" and
    n: "SetDebugUtilsObjectNameEXT dev \<noteq> DriverSetDebugUtilsObjectNameEXT 0" and
    m: "map fst names = debug_name_calls dev cb VK_OBJECT_TYPE_COMMAND_BUFFER
          ''Hang/crash detection CommandBuffer''" and
    e: "evs = (vkAllocateCommandBuffers (device dev) pool VK_COMMAND_BUFFER_LEVEL_PRIMARY 1,
                 VK_SUCCESS, cb) # names" and
    a: "answered drv (trace w) evs"
    unfolding sentinel_allocated_def by (elim exE conjE)
  from a e have r: "respond drv (trace w)
      (vkAllocateCommandBuffers (device dev) pool VK_COMMAND_BUFFER_LEVEL_PRIMARY 1) =
      (VK_SUCCESS, cb)"
    and an: "answered drv (trace w @
      [(vkAllocateCommandBuffers (device dev) pool VK_COMMAND_BUFFER_LEVEL_PRIMARY 1,
                 VK_SUCCESS, cb)]) names"
    by simp_all
  have g: "GetSingleDevice ctx = Inr dev"
    using d by (simp add: GetSingleDevice_Inr)
  have s: "SetObjectDebugName drv dev cb VK_OBJECT_TYPE_COMMAND_BUFFER
             (Some ''Hang/crash detection CommandBuffer'')
             (w\<lparr>trace := trace w @
               [(vkAllocateCommandBuffers (device dev) pool VK_COMMAND_BUFFER_LEVEL_PRIMARY 1,
                 VK_SUCCESS, cb)]\<rparr>) =
           Inr (w\<lparr>trace := trace w @ evs\<rparr>)"
    using SetObjectDebugName_names [OF n m, of drv "w\<lparr>trace := trace w @
               [(vkAllocateCommandBuffers (device dev) pool VK_COMMAND_BUFFER_LEVEL_PRIMARY 1,
                 VK_SUCCESS, cb)]\<rparr>"] an e
    by simp
  show ?thesis
    unfolding RunWithCrashCheck_def g
    by (simp only: and_then_def sum.case read_member_def p option.case
        VK_RETURN_IF_FAIL_success [OF r] s)
qed

lemma run_armed:
  assumes "sentinel_armed drv ctx w cb fence wa"
  shows "RunWithCrashCheck drv cb_address ctx f w =
     and_then (f ctx wa) (\<lambda>(ctx', w7).
     and_then (device_pointer_after ctx') (\<lambda>dev'.
     read_member (queue dev') (\<lambda>q.
     VK_RETURN_IF_FAIL (vk drv (vkQueueWaitIdle q) w7) ctx' (\<lambda>_ w8.
     and_then (CreateSubmitInfo cb_address None None None 0) (\<lambda>submit_info.
     VK_RETURN_IF_FAIL (vk drv (vkQueueSubmit q submit_info [cb] fence) w8) ctx' (\<lambda>_ w9.
     VK_RETURN_IF_FAIL
       (vk drv (vkWaitForFences (device dev') [fence] True kFenceTimeout) w9) ctx' (\<lambda>_ w10.
     case vk drv (vkQueueWaitIdle q) w10 of
       ((res, _), w11) \<Rightarrow> Inr (res, ctx', w11))))))))"
proof -
  from assms obtain dev evs hb he names where
    a: "sentinel_allocated drv ctx w dev cb evs" and
    m: "map fst names = debug_name_calls dev fence VK_OBJECT_TYPE_FENCE
          ''Hang/crash detection Fence''" and
    an: "answered drv (trace w @ evs)
          ([(vkBeginCommandBuffer cb VK_COMMAND_BUFFER_USAGE_ONE_TIME_SUBMIT_BIT, VK_SUCCESS, hb),
            (vkEndCommandBuffer cb, VK_SUCCESS, he),
            (vkCreateFence (device dev), VK_SUCCESS, fence)] @ names)" and
    t: "trace wa = trace w @ evs @
          [(vkBeginCommandBuffer cb VK_COMMAND_BUFFER_USAGE_ONE_TIME_SUBMIT_BIT, VK_SUCCESS, hb),
           (vkEndCommandBuffer cb, VK_SUCCESS, he),
           (vkCreateFence (device dev), VK_SUCCESS, fence)] @ names" and
    mem: "memory wa = memory w"
    unfolding sentinel_armed_def by (elim exE conjE)
  from a have n: "SetDebugUtilsObjectNameEXT dev \<noteq> DriverSetDebugUtilsObjectNameEXT 0"
    unfolding sentinel_allocated_def by (elim exE conjE)
  let ?w2 = "w\<lparr>trace := trace w @ evs\<rparr>"
  let ?b = "(vkBeginCommandBuffer cb VK_COMMAND_BUFFER_USAGE_ONE_TIME_SUBMIT_BIT, VK_SUCCESS, hb)"
  let ?e = "(vkEndCommandBuffer cb, VK_SUCCESS, he)"
  let ?c = "(vkCreateFence (device dev), VK_SUCCESS, fence)"
  let ?w3 = "?w2\<lparr>trace := trace ?w2 @ [?b]\<rparr>"
  let ?w4 = "?w3\<lparr>trace := trace ?w3 @ [?e]\<rparr>"
  let ?w5 = "?w4\<lparr>trace := trace ?w4 @ [?c]\<rparr>"
  from an have rb: "respond drv (trace ?w2)
      (vkBeginCommandBuffer cb VK_COMMAND_BUFFER_USAGE_ONE_TIME_SUBMIT_BIT) = (VK_SUCCESS, hb)"
    and re: "respond drv (trace ?w3) (vkEndCommandBuffer cb) = (VK_SUCCESS, he)"
    and rc: "respond drv (trace ?w4) (vkCreateFence (device dev)) = (VK_SUCCESS, fence)"
    and ann: "answered drv (trace ?w5) names"
    by simp_all
  have wa: "?w5\<lparr>trace := trace ?w5 @ names\<rparr> = wa"
    using t mem by (cases w; cases wa) simp
  have s: "SetObjectDebugName drv dev fence VK_OBJECT_TYPE_FENCE
             (Some ''Hang/crash detection Fence'') ?w5 = Inr wa"
    using SetObjectDebugName_names [OF n m ann] wa by simp
  show ?thesis
    unfolding run_allocated [OF a]
    by (simp only: VK_RETURN_IF_FAIL_success [OF rb] VK_RETURN_IF_FAIL_success [OF re]
        VK_RETURN_IF_FAIL_success [OF rc] s and_then_def [of "Inr wa"] sum.case)
qed

lemma run_submitted:
  assumes "sentinel_submitted drv cb_address ctx f w ctx' wp dev' q fence evs"
  shows "RunWithCrashCheck drv cb_address ctx f w =
     VK_RETURN_IF_FAIL
       (vk drv (vkWaitForFences (device dev') [fence] True kFenceTimeout)
          (wp\<lparr>trace := trace wp @ evs\<rparr>)) ctx' (\<lambda>_ w10.
     case vk drv (vkQueueWaitIdle q) w10 of
       ((res, _), w11) \<Rightarrow> Inr (res, ctx', w11))"
proof -
  let ?si = "zero_VkSubmitInfo\<lparr>sType := VK_STRUCTURE_TYPE_SUBMIT_INFO,
                     commandBufferCount := 1, pCommandBuffers := cb_address\<rparr>"
  from assms obtain cb wa ds hi hs where
    a: "sentinel_armed drv ctx w cb fence wa" and p: "f ctx wa = Inr (ctx', wp)" and
    d: "devices ctx' = dev' # ds" and q: "queue dev' = Some q" and
    e: "evs = [(vkQueueWaitIdle q, VK_SUCCESS, hi),
               (vkQueueSubmit q ?si [cb] fence, VK_SUCCESS, hs)]" and
    an: "answered drv (trace wp) evs"
    unfolding sentinel_submitted_def by (elim exE conjE)
  let ?w8 = "wp\<lparr>trace := trace wp @ [(vkQueueWaitIdle q, VK_SUCCESS, hi)]\<rparr>"
  from an e have ri: "respond drv (trace wp) (vkQueueWaitIdle q) = (VK_SUCCESS, hi)"
    and rs: "respond drv (trace ?w8) (vkQueueSubmit q ?si [cb] fence) = (VK_SUCCESS, hs)"
    by simp_all
  have g: "device_pointer_after ctx' = Inr dev'"
    using d by (simp add: device_pointer_after_def)
  have w9: "?w8\<lparr>trace := trace ?w8 @ [(vkQueueSubmit q ?si [cb] fence, VK_SUCCESS, hs)]\<rparr> =
            wp\<lparr>trace := trace wp @ evs\<rparr>"
    using e by simp
  show ?thesis
    unfolding run_armed [OF a] p
    by (simp only: and_then_def sum.case case_prod_conv g read_member_def q option.case
        VK_RETURN_IF_FAIL_success [OF ri] CreateSubmitInfo_plain
        VK_RETURN_IF_FAIL_success [OF rs] w9)
qed

lemma crash_check_outcome_returned:
  assumes "crash_check_outcome drv cb_address ctx f w res ctx' w'"
  shows "RunWithCrashCheck drv cb_address ctx f w = Inr (res, ctx', w')"
  using assms
proof cases
  case (allocation_failed dev pool h)
  have g: "GetSingleDevice ctx = Inr dev"
    using allocation_failed by (simp add: GetSingleDevice_Inr)
  from allocation_failed show ?thesis
    unfolding RunWithCrashCheck_def g
    by (simp add: and_then_def read_member_def VK_RETURN_IF_FAIL_failure world_upd)
next
  case (begin_failed dev cb evs tail h)
  then show ?thesis
    unfolding run_allocated [OF begin_failed(2)]
    by (simp add: VK_RETURN_IF_FAIL_failure world_upd)
next
  case (end_failed dev cb evs tail hb h)
  then show ?thesis
    unfolding run_allocated [OF end_failed(2)]
    by (simp add: VK_RETURN_IF_FAIL_failure VK_RETURN_IF_FAIL_success world_upd)
next
  case (fence_failed dev cb evs tail hb he h)
  then show ?thesis
    unfolding run_allocated [OF fence_failed(2)]
    by (simp add: VK_RETURN_IF_FAIL_failure VK_RETURN_IF_FAIL_success world_upd)
next
  case (idle_failed cb fence wa wp dev' ds q h)
  have g: "device_pointer_after ctx' = Inr dev'"
    using idle_failed by (simp add: device_pointer_after_def)
  from idle_failed show ?thesis
    unfolding run_armed [OF idle_failed(1)]
    by (simp add: and_then_def g read_member_def VK_RETURN_IF_FAIL_failure world_upd)
next
  case (submit_failed cb fence wa wp dev' ds q tail hi h)
  have g: "device_pointer_after ctx' = Inr dev'"
    using submit_failed by (simp add: device_pointer_after_def)
  from submit_failed show ?thesis
    unfolding run_armed [OF submit_failed(1)]
    by (simp add: and_then_def g read_member_def VK_RETURN_IF_FAIL_failure
        VK_RETURN_IF_FAIL_success CreateSubmitInfo_plain world_upd)
next
  case (fence_wait_failed wp dev' q fence evs h)
  then show ?thesis
    unfolding run_submitted [OF fence_wait_failed(1)]
    by (simp add: VK_RETURN_IF_FAIL_failure kFenceTimeout_def world_upd)
next
  case (fence_wait_succeeded wp dev' q fence evs tail hw h)
  then show ?thesis
    unfolding run_submitted [OF fence_wait_succeeded(1)]
    by (simp add: VK_RETURN_IF_FAIL_success kFenceTimeout_def)
      (simp add: vk_def world_upd)
qed

lemmas run_simps = RunWithCrashCheck_def GetSingleDevice_def device_pointer_after_def
  and_then_def read_member_def VK_RETURN_IF_FAIL_def vk_def SetObjectDebugName_def
  CreateSubmitInfo_plain kFenceTimeout_def

text \<open>
  C1, as amended. \<^verbatim>\<open>RunWithCrashCheck\<close> returns a result, a context and a world exactly in
  one of the eight ways of \<open>crash_check_outcome\<close>. It first allocates the sentinel command
  buffer, names it, begins and ends it with nothing in between, and creates and names the
  fence; then it calls the payload. A result other than \<^verbatim>\<open>VK_SUCCESS\<close> from
  \<^verbatim>\<open>vkAllocateCommandBuffers\<close>, \<^verbatim>\<open>vkBeginCommandBuffer\<close>, \<^verbatim>\<open>vkEndCommandBuffer\<close>,
  \<^verbatim>\<open>vkCreateFence\<close>, the idle-wait after the payload or the submission of the sentinel is
  returned at once, that call being the last one made. The results of the two naming
  calls are not read: they are free in every rule. After the submission of the sentinel
  with the fence, the fence is waited for with a timeout of 30 seconds, in nanoseconds; a
  failure of the wait is returned, and only after a successful wait is the final idle-wait
  made, whose result is the one returned.
\<close>

theorem RunWithCrashCheck_protocol:
  "(RunWithCrashCheck drv cb_address ctx f w = Inr (res, ctx', w')) =
   crash_check_outcome drv cb_address ctx f w res ctx' w'"
  using RunWithCrashCheck_outcome crash_check_outcome_returned by blast

text \<open>
  With the example device and a driver that loses the device at the fence wait, the run
  returns \<^verbatim>\<open>VK_ERROR_DEVICE_LOST\<close>, the fence wait being the last of its eight calls.
\<close>

theorem RunWithCrashCheck_protocol_witness:
  "crash_check_outcome lost_driver 7 example_context (example_payload lost_driver)
     example_world VK_ERROR_DEVICE_LOST example_context
     (example_world\<lparr>trace :=
        [(vkAllocateCommandBuffers 10 20 VK_COMMAND_BUFFER_LEVEL_PRIMARY 1, VK_SUCCESS, 1),
         (vkBeginCommandBuffer 1 VK_COMMAND_BUFFER_USAGE_ONE_TIME_SUBMIT_BIT, VK_SUCCESS, 2),
         (vkEndCommandBuffer 1, VK_SUCCESS, 3),
         (vkCreateFence 10, VK_SUCCESS, 4),
         (vkQueueSubmit 4096
            (zero_VkSubmitInfo\<lparr>sType := VK_STRUCTURE_TYPE_SUBMIT_INFO,
               commandBufferCount := 1, pCommandBuffers := 8\<rparr>) [77] 0, VK_SUCCESS, 5),
         (vkQueueWaitIdle 4096, VK_SUCCESS, 6),
         (vkQueueSubmit 4096
            (zero_VkSubmitInfo\<lparr>sType := VK_STRUCTURE_TYPE_SUBMIT_INFO,
               commandBufferCount := 1, pCommandBuffers := 7\<rparr>) [1] 4, VK_SUCCESS, 7),
         (vkWaitForFences 10 [4] True 30000000000, VK_ERROR_DEVICE_LOST, 0)]\<rparr>)"
  (is "crash_check_outcome _ _ _ _ _ _ _ ?W")
proof -
  have "RunWithCrashCheck lost_driver 7 example_context (example_payload lost_driver)
          example_world = Inr (VK_ERROR_DEVICE_LOST, example_context, ?W)"
    by (simp add: run_simps example_context_def example_device_def example_payload_def
        lost_driver_def example_driver_def example_world_def VK_ERROR_DEVICE_LOST_def
        VK_SUCCESS_def)
  then show ?thesis
    unfolding RunWithCrashCheck_protocol .
qed

text \<open>
  Not every failing call before the submission is returned: with \<^verbatim>\<open>--debug_utils\<close>,
  both naming calls fail with \<^verbatim>\<open>VK_ERROR_OUT_OF_HOST_MEMORY\<close> before the sentinel is
  submitted, the run goes on through every later step and returns \<^verbatim>\<open>VK_SUCCESS\<close>.
\<close>

theorem RunWithCrashCheck_naming_counterexample:
  "RunWithCrashCheck naming_driver 7 named_context (example_payload naming_driver)
     example_world =
   Inr (VK_SUCCESS, named_context,
     example_world\<lparr>trace :=
        [(vkAllocateCommandBuffers 10 20 VK_COMMAND_BUFFER_LEVEL_PRIMARY 1, VK_SUCCESS, 1),
         (vkSetDebugUtilsObjectNameEXT 10 VK_OBJECT_TYPE_COMMAND_BUFFER 1
            ''Hang/crash detection CommandBuffer'', VK_ERROR_OUT_OF_HOST_MEMORY, 0),
         (vkBeginCommandBuffer 1 VK_COMMAND_BUFFER_USAGE_ONE_TIME_SUBMIT_BIT, VK_SUCCESS, 3),
         (vkEndCommandBuffer 1, VK_SUCCESS, 4),
         (vkCreateFence 10, VK_SUCCESS, 5),
         (vkSetDebugUtilsObjectNameEXT 10 VK_OBJECT_TYPE_FENCE 5
            ''Hang/crash detection Fence'', VK_ERROR_OUT_OF_HOST_MEMORY, 0),
         (vkQueueSubmit 4096
            (zero_VkSubmitInfo\<lparr>sType := VK_STRUCTURE_TYPE_SUBMIT_INFO,
               commandBufferCount := 1, pCommandBuffers := 8\<rparr>) [77] 0, VK_SUCCESS, 7),
         (vkQueueWaitIdle 4096, VK_SUCCESS, 8),
         (vkQueueSubmit 4096
            (zero_VkSubmitInfo\<lparr>sType := VK_STRUCTURE_TYPE_SUBMIT_INFO,
               commandBufferCount := 1, pCommandBuffers := 7\<rparr>) [1] 5, VK_SUCCESS, 9),
         (vkWaitForFences 10 [5] True 30000000000, VK_SUCCESS, 10),
         (vkQueueWaitIdle 4096, VK_SUCCESS, 11)]\<rparr>)"
  by (simp add: run_simps named_context_def example_context_def example_device_def
      example_payload_def naming_driver_def example_driver_def example_world_def
      VK_ERROR_OUT_OF_HOST_MEMORY_def VK_SUCCESS_def)

subsection \<open>Device initialisation\<close>






lemma select_queue_in_range:
  assumes "\<And>k i. create_info_indices st k = Some i \<Longrightarrow> i < length (queue_create_infos st)"
    and "create_info_indices (select_queue q st) k = Some i"
  shows "i < length (queue_create_infos (select_queue q st))"
  using assms by (auto simp: select_queue_def Let_def less_Suc_eq split: if_splits)

lemma select_queues_in_range:
  assumes "\<And>k i. create_info_indices st k = Some i \<Longrightarrow> i < length (queue_create_infos st)"
    and "create_info_indices (select_queues families queue_types st) k = Some i"
  shows "i < length (queue_create_infos (select_queues families queue_types st))"
  using assms
proof (induction queue_types arbitrary: st)
  case Nil
  then show ?case by simp
next
  case (Cons queue_type queue_types)
  show ?case
    using Cons.prems(2) unfolding select_queues.simps
    by (rule Cons.IH [rotated]) (rule select_queue_in_range [OF Cons.prems(1)])
qed








lemmas init_simps = InitVulkanDevice_def load_kernel_def and_then_def VK_CHECK_RESULT_def vk_def
  SetObjectDebugName_def read_member_def front_def QueueTypeFromString_def GetFlag_def
  LoadShader_def CreateShader_def select_queue_def map_index_def Let_def
  example_driver_def example_files_def example_instance_context_def
  example_world_def SelectQueue_def queue_predicate_def VK_SUCCESS_def VK_QUEUE_GRAPHICS_BIT_def




text \<open>
  The feature structure for timeline semaphores is chained when an extension name has the
  address of the literal, whatever characters it points at, and not when a name with the
  same characters lies at another address.
\<close>

lemma example_InitVulkanDevice_timeline:
  "InitVulkanDevice example_driver Map.empty example_files 24576 3735928559
     example_instance_context (Some [(28672, ''VK_KHR_timeline_semaphore'')]) None (Some [])
     example_world =
   Inr (3,
     example_instance_context\<lparr>context_physicalDevice := 100, devices :=
       [\<lparr>device = 3, physicalDevice = 100, queues = [], queue = None,
         CmdWriteBufferMarkerAMD = 0, SignalSemaphoreKHR = 0, WaitSemaphoresKHR = 0,
         SetDebugUtilsObjectNameEXT = DummySetDebugUtilsObjectNameEXT,
         commandPools = [], commandPool = None, computeShaderModule = None,
         descriptorSetLayout = None, pipelineLayout = None, pipeline = None,
         descriptorPool = None, descriptorSet = None, bufferIn = None, bufferOut = None,
         bufferMemory = None, numBuffers = 2, numBufferEntries = 256, bufferSize = 1024,
         memorySize = 2048\<rparr>]\<rparr>,
     example_world\<lparr>trace :=
       [(vkEnumeratePhysicalDevices 1000 None, 0, 1),
        (vkEnumeratePhysicalDevices 1000 (Some 1), 0, 2),
        (vkCreateDevice 100 [] [''VK_KHR_timeline_semaphore''] False, 0, 3)]\<rparr>)"
  "InitVulkanDevice example_driver Map.empty example_files 24576 3735928559
     example_instance_context (Some [(24576, ''VK_KHR_timeline_semaphore'')]) None (Some [])
     example_world =
   Inr (3,
     example_instance_context\<lparr>context_physicalDevice := 100, devices :=
       [\<lparr>device = 3, physicalDevice = 100, queues = [], queue = None,
         CmdWriteBufferMarkerAMD = 0, SignalSemaphoreKHR = 0, WaitSemaphoresKHR = 0,
         SetDebugUtilsObjectNameEXT = DummySetDebugUtilsObjectNameEXT,
         commandPools = [], commandPool = None, computeShaderModule = None,
         descriptorSetLayout = None, pipelineLayout = None, pipeline = None,
         descriptorPool = None, descriptorSet = None, bufferIn = None, bufferOut = None,
         bufferMemory = None, numBuffers = 2, numBufferEntries = 256, bufferSize = 1024,
         memorySize = 2048\<rparr>]\<rparr>,
     example_world\<lparr>trace :=
       [(vkEnumeratePhysicalDevices 1000 None, 0, 1),
        (vkEnumeratePhysicalDevices 1000 (Some 1), 0, 2),
        (vkCreateDevice 100 [] [''VK_KHR_timeline_semaphore''] True, 0, 3)]\<rparr>)"
  by (simp_all add: init_simps)




end
